theory Spec2Isabelle
  imports Main
begin

section \<open>JavaScript strings\<close>

text \<open>
  Strings are lists of 8-bit characters. The white space that \<^verbatim>\<open>String.prototype.trim\<close>
  strips and that \<^verbatim>\<open>\s\<close> matches is, below code point 256: TAB, LF, VT, FF, CR, SPACE
  and NO-BREAK SPACE. The remaining members of the ECMAScript set (U+1680, U+2000 to
  U+200A, U+2028, U+2029, U+202F, U+205F, U+3000, U+FEFF) lie outside the character
  type used here.
\<close>

definition isWhiteSpace :: "char \<Rightarrow> bool" where
  "isWhiteSpace c \<longleftrightarrow>
     c = CHR 0x09 \<or> c = CHR 0x0A \<or> c = CHR 0x0B \<or> c = CHR 0x0C \<or> c = CHR 0x0D \<or>
     c = CHR 0x20 \<or> c = CHR 0xA0"

definition trimStart :: "string \<Rightarrow> string" where
  "trimStart s = dropWhile isWhiteSpace s"

definition trimEnd :: "string \<Rightarrow> string" where
  "trimEnd s = rev (dropWhile isWhiteSpace (rev s))"

definition trim :: "string \<Rightarrow> string" where
  "trim s = trimEnd (trimStart s)"

text \<open>A string is truthy when it is not empty; \<^verbatim>\<open>null\<close> and \<^verbatim>\<open>undefined\<close> are \<open>None\<close>.\<close>

definition truthy :: "string \<Rightarrow> bool" where
  "truthy s \<longleftrightarrow> s \<noteq> []"

text \<open>\<^verbatim>\<open>a || b\<close> on an optional string: \<open>b\<close> when \<open>a\<close> is absent or empty.\<close>

fun orElse :: "string option \<Rightarrow> string \<Rightarrow> string" where
  "orElse None d = d"
| "orElse (Some s) d = (if truthy s then s else d)"

text \<open>
  \<^verbatim>\<open>String.prototype.includes\<close> (named \<open>includes_str\<close>): the needle occurs at some
  position.
\<close>

fun startsWith :: "string \<Rightarrow> string \<Rightarrow> bool" where
  "startsWith s [] = True"
| "startsWith [] (p # ps) = False"
| "startsWith (c # cs) (p # ps) = (c = p \<and> startsWith cs ps)"

fun includes_str :: "string \<Rightarrow> string \<Rightarrow> bool" where
  "includes_str [] needle = (needle = [])"
| "includes_str (c # cs) needle = (startsWith (c # cs) needle \<or> includes_str cs needle)"

text \<open>\<^verbatim>\<open>Array.prototype.join\<close> on an array of strings.\<close>

fun join :: "string list \<Rightarrow> string \<Rightarrow> string" where
  "join [] sep = []"
| "join [x] sep = x"
| "join (x # y # ys) sep = x @ sep @ join (y # ys) sep"

text \<open>Decimal rendering of a non-negative integer, as a template literal prints it.\<close>

definition digit :: "nat \<Rightarrow> char" where
  "digit d = ''0123456789'' ! d"

fun numberToString :: "nat \<Rightarrow> string" where
  "numberToString n =
     (if n < 10 then [digit n] else numberToString (n div 10) @ [digit (n mod 10)])"

declare numberToString.simps [simp del]

section \<open>JSON\<close>

text \<open>
  \<^verbatim>\<open>JSON.parse\<close> and \<^verbatim>\<open>JSON.stringify\<close> belong to the language. The model reads the JSON
  grammar in two passes, both folds over their input: a lexer that walks the characters
  and a push-down parser that walks the tokens. A number keeps the text it was written
  with (its floating-point value is not interpreted). An object keeps its members in the
  order read; a lookup takes the last member with the key, as the later of two equal keys
  overwrites the earlier.

  A JSON value is built over a type of strings. The values that the code writes down
  carry \<open>string\<close>. The values that \<^verbatim>\<open>JSON.parse\<close> returns carry the UTF-16 code units of
  their strings and keys (\<open>ustring\<close>), since an escape \<^verbatim>\<open>\uXXXX\<close> denotes any code unit from
  0 to FFFF; a character of the text that is not escaped gives its own code.
\<close>

type_synonym ustring = "nat list"

definition units :: "string \<Rightarrow> ustring" where
  "units s = map of_char s"

datatype 's json = JNull | JBool bool | JNum string | JStr 's | JArr "'s json list"
  | JObj "('s \<times> 's json) list"

text \<open>The lexer.\<close>

datatype token = LBrace | RBrace | LBracket | RBracket | Colon | Comma
  | TString ustring | TWord string

datatype lexState = LStart | LStr ustring | LEsc ustring | LUni ustring "nat list"
  | LWord string | LFail

definition isJsonSpace :: "char \<Rightarrow> bool" where
  "isJsonSpace c \<longleftrightarrow> c = CHR 0x20 \<or> c = CHR 0x09 \<or> c = CHR 0x0A \<or> c = CHR 0x0D"

definition isDigit :: "char \<Rightarrow> bool" where
  "isDigit c \<longleftrightarrow> c \<in> set ''0123456789''"

definition isWordChar :: "char \<Rightarrow> bool" where
  "isWordChar c \<longleftrightarrow>
     c \<in> set ''abcdefghijklmnopqrstuvwxyzABCDEFGHIJKLMNOPQRSTUVWXYZ0123456789_''"

definition isLexemeChar :: "char \<Rightarrow> bool" where
  "isLexemeChar c \<longleftrightarrow> isWordChar c \<or> c = CHR ''+'' \<or> c = CHR ''-'' \<or> c = CHR ''.''"

definition hexValue :: "char \<Rightarrow> nat option" where
  "hexValue c = map_of (zip ''0123456789abcdef'' [0..<16] @ zip ''ABCDEF'' [10..<16]) c"

definition isControl :: "char \<Rightarrow> bool" where
  "isControl c \<longleftrightarrow> (of_char c :: nat) < 32"

fun punctuation :: "char \<Rightarrow> token option" where
  "punctuation c =
     (if c = CHR ''{'' then Some LBrace else if c = CHR ''}'' then Some RBrace
      else if c = CHR ''['' then Some LBracket else if c = CHR '']'' then Some RBracket
      else if c = CHR '':'' then Some Colon else if c = CHR '','' then Some Comma else None)"

fun lexStart :: "token list \<Rightarrow> char \<Rightarrow> token list \<times> lexState" where
  "lexStart ts c =
     (if isJsonSpace c then (ts, LStart)
      else if c = CHR 0x22 then (ts, LStr [])
      else if isLexemeChar c then (ts, LWord [c])
      else (case punctuation c of Some t \<Rightarrow> (t # ts, LStart) | None \<Rightarrow> (ts, LFail)))"

fun escapeChar :: "char \<Rightarrow> char option" where
  "escapeChar c =
     (if c = CHR 0x22 \<or> c = CHR 0x5C \<or> c = CHR ''/'' then Some c
      else if c = CHR ''b'' then Some (CHR 0x08) else if c = CHR ''f'' then Some (CHR 0x0C)
      else if c = CHR ''n'' then Some (CHR 0x0A) else if c = CHR ''r'' then Some (CHR 0x0D)
      else if c = CHR ''t'' then Some (CHR 0x09) else None)"

fun lexStep :: "token list \<times> lexState \<Rightarrow> char \<Rightarrow> token list \<times> lexState" where
  "lexStep (ts, LStart) c = lexStart ts c"
| "lexStep (ts, LStr acc) c =
     (if c = CHR 0x22 then (TString (rev acc) # ts, LStart)
      else if c = CHR 0x5C then (ts, LEsc acc)
      else if isControl c then (ts, LFail)
      else (ts, LStr (of_char c # acc)))"
| "lexStep (ts, LEsc acc) c =
     (if c = CHR ''u'' then (ts, LUni acc [])
      else (case escapeChar c of
              Some e \<Rightarrow> (ts, LStr (of_char e # acc))
            | None \<Rightarrow> (ts, LFail)))"
| "lexStep (ts, LUni acc ds) c =
     (case hexValue c of
        None \<Rightarrow> (ts, LFail)
      | Some d \<Rightarrow>
          (if length ds < 3 then (ts, LUni acc (ds @ [d]))
           else (ts, LStr (foldl (\<lambda>a b. 16 * a + b) 0 (ds @ [d]) # acc))))"
| "lexStep (ts, LWord acc) c =
     (if isLexemeChar c then (ts, LWord (c # acc)) else lexStart (TWord (rev acc) # ts) c)"
| "lexStep (ts, LFail) c = (ts, LFail)"

definition tokenize :: "string \<Rightarrow> token list option" where
  "tokenize s =
     (case foldl lexStep ([], LStart) s of
        (ts, LStart) \<Rightarrow> Some (rev ts)
      | (ts, LWord acc) \<Rightarrow> Some (rev (TWord (rev acc) # ts))
      | _ \<Rightarrow> None)"

text \<open>
  A number: an optional minus sign; a zero, or a non-zero digit followed by digits; an
  optional fraction (a point and at least one digit); an optional exponent (e or E, an
  optional sign and at least one digit).
\<close>

definition validExponent :: "string \<Rightarrow> bool" where
  "validExponent s =
     (case s of
        [] \<Rightarrow> True
      | e # r \<Rightarrow> (e = CHR ''e'' \<or> e = CHR ''E'') \<and>
          (let ds = (case r of [] \<Rightarrow> [] | x # xs \<Rightarrow> if x = CHR ''+'' \<or> x = CHR ''-'' then xs else r)
           in ds \<noteq> [] \<and> list_all isDigit ds))"

definition validFraction :: "string \<Rightarrow> bool" where
  "validFraction s =
     (case s of
        [] \<Rightarrow> True
      | d # r \<Rightarrow>
          if d = CHR ''.''
          then takeWhile isDigit r \<noteq> [] \<and> validExponent (dropWhile isDigit r)
          else validExponent s)"

definition validNumber :: "string \<Rightarrow> bool" where
  "validNumber s =
     (let u = (case s of [] \<Rightarrow> [] | x # xs \<Rightarrow> if x = CHR ''-'' then xs else s)
      in case u of
           [] \<Rightarrow> False
         | d # r \<Rightarrow>
             if d = CHR ''0'' then validFraction r
             else isDigit d \<and> validFraction (dropWhile isDigit r))"

definition wordValue :: "string \<Rightarrow> ustring json option" where
  "wordValue w =
     (if w = ''true'' then Some (JBool True) else if w = ''false'' then Some (JBool False)
      else if w = ''null'' then Some JNull
      else if validNumber w then Some (JNum w) else None)"

text \<open>
  The parser: a stack of open arrays and objects (members collected in reverse), and what
  may come next.
\<close>

datatype frame = FArr "ustring json list" | FObj "(ustring \<times> ustring json) list"
  | FKey "(ustring \<times> ustring json) list" ustring

datatype pmode = PValue | PValueOrClose | PKeyOrClose | PKey | PColon | PAfter
  | PDone "ustring json" | PFail

fun deliver :: "ustring json \<Rightarrow> frame list \<Rightarrow> pmode \<times> frame list" where
  "deliver v [] = (PDone v, [])"
| "deliver v (FArr acc # st) = (PAfter, FArr (v # acc) # st)"
| "deliver v (FKey acc k # st) = (PAfter, FObj ((k, v) # acc) # st)"
| "deliver v (FObj acc # st) = (PFail, [])"

fun startValue :: "token \<Rightarrow> frame list \<Rightarrow> pmode \<times> frame list" where
  "startValue LBrace st = (PKeyOrClose, FObj [] # st)"
| "startValue LBracket st = (PValueOrClose, FArr [] # st)"
| "startValue (TString s) st = deliver (JStr s) st"
| "startValue (TWord w) st = (case wordValue w of Some v \<Rightarrow> deliver v st | None \<Rightarrow> (PFail, []))"
| "startValue _ st = (PFail, [])"

fun closeFrame :: "token \<Rightarrow> frame list \<Rightarrow> pmode \<times> frame list" where
  "closeFrame RBracket (FArr acc # st) = deliver (JArr (rev acc)) st"
| "closeFrame RBrace (FObj acc # st) = deliver (JObj (rev acc)) st"
| "closeFrame _ _ = (PFail, [])"

fun expectKey :: "token \<Rightarrow> frame list \<Rightarrow> pmode \<times> frame list" where
  "expectKey (TString k) (FObj acc # st) = (PColon, FKey acc k # st)"
| "expectKey _ _ = (PFail, [])"

fun parseStep :: "pmode \<times> frame list \<Rightarrow> token \<Rightarrow> pmode \<times> frame list" where
  "parseStep (PValue, st) t = startValue t st"
| "parseStep (PValueOrClose, st) t = (if t = RBracket then closeFrame t st else startValue t st)"
| "parseStep (PKeyOrClose, st) t = (if t = RBrace then closeFrame t st else expectKey t st)"
| "parseStep (PKey, st) t = expectKey t st"
| "parseStep (PColon, st) t = (if t = Colon then (PValue, st) else (PFail, []))"
| "parseStep (PAfter, st) t =
     (if t = Comma then (case st of FArr acc # _ \<Rightarrow> (PValue, st) | FObj acc # _ \<Rightarrow> (PKey, st)
                                   | _ \<Rightarrow> (PFail, []))
      else closeFrame t st)"
| "parseStep (PDone v, st) t = (PFail, [])"
| "parseStep (PFail, st) t = (PFail, [])"

definition JSON_parse :: "string \<Rightarrow> ustring json option" where
  "JSON_parse s =
     (case tokenize s of
        None \<Rightarrow> None
      | Some ts \<Rightarrow> (case foldl parseStep (PValue, []) ts of (PDone v, _) \<Rightarrow> Some v | _ \<Rightarrow> None))"

text \<open>Property access on a parsed value: absent (\<^verbatim>\<open>undefined\<close>) unless an object has the key.\<close>

fun getProp :: "'s json \<Rightarrow> 's \<Rightarrow> 's json option" where
  "getProp (JObj ms) key = map_of (rev ms) key"
| "getProp v key = None"

text \<open>
  \<^verbatim>\<open>JSON.stringify\<close> without indentation. \<open>quoteJSONString\<close> escapes the quote, the backslash
  and the control characters.
\<close>

definition hexDigit :: "nat \<Rightarrow> char" where
  "hexDigit d = ''0123456789abcdef'' ! d"

definition quoteChar :: "char \<Rightarrow> string" where
  "quoteChar c =
     (if c = CHR 0x22 then [CHR 0x5C, CHR 0x22]
      else if c = CHR 0x5C then [CHR 0x5C, CHR 0x5C]
      else if c = CHR 0x08 then [CHR 0x5C, CHR ''b'']
      else if c = CHR 0x0C then [CHR 0x5C, CHR ''f'']
      else if c = CHR 0x0A then [CHR 0x5C, CHR ''n'']
      else if c = CHR 0x0D then [CHR 0x5C, CHR ''r'']
      else if c = CHR 0x09 then [CHR 0x5C, CHR ''t'']
      else if isControl c
        then [CHR 0x5C, CHR ''u'', CHR ''0'', CHR ''0'',
              hexDigit (of_char c div 16), hexDigit (of_char c mod 16)]
      else [c])"

definition quoteJSONString :: "string \<Rightarrow> string" where
  "quoteJSONString s = [CHR 0x22] @ concat (map quoteChar s) @ [CHR 0x22]"

fun JSON_stringify :: "string json \<Rightarrow> string" where
  "JSON_stringify JNull = ''null''"
| "JSON_stringify (JBool b) = (if b then ''true'' else ''false'')"
| "JSON_stringify (JNum w) = w"
| "JSON_stringify (JStr s) = quoteJSONString s"
| "JSON_stringify (JArr vs) = ''['' @ join (map JSON_stringify vs) '','' @ '']''"
| "JSON_stringify (JObj ms) =
     ''{'' @ join (map (\<lambda>(k, v). quoteJSONString k @ '':'' @ JSON_stringify v) ms) '','' @ ''}''"

section \<open>Regular expressions\<close>

text \<open>
  The fragment of ECMAScript regular expressions that the outline pattern uses, with the
  backtracking order of the language: a matcher returns every way to match, best first,
  each as the position reached, the input left and the captures. \<open>Opt\<close> is the greedy
  \<^verbatim>\<open>?\<close>, which discards an iteration that matched the empty string; \<open>Star\<close> and
  \<open>LazyStar\<close> are \<^verbatim>\<open>*\<close> and \<^verbatim>\<open>*?\<close> on a character class; \<open>CAny\<close> is the dot under the
  \<^verbatim>\<open>s\<close> flag; \<open>Bol\<close> and \<open>Eol\<close> are \<^verbatim>\<open>^\<close> and \<^verbatim>\<open>$\<close> without the \<^verbatim>\<open>m\<close> flag.
\<close>

datatype charClass = CAny | CWord | CSpace | CChar char

datatype regex = Empty | Atom charClass | Bol | Eol | Seq regex regex | Opt regex
  | Star charClass | LazyStar charClass | Group nat regex

type_synonym captures = "nat \<Rightarrow> string option"

fun inClass :: "charClass \<Rightarrow> char \<Rightarrow> bool" where
  "inClass CAny c = True"
| "inClass CWord c = isWordChar c"
| "inClass CSpace c = isWhiteSpace c"
| "inClass (CChar d) c = (c = d)"

fun matchRegex :: "regex \<Rightarrow> nat \<Rightarrow> string \<Rightarrow> captures \<Rightarrow> (nat \<times> string \<times> captures) list" where
  "matchRegex Empty i s caps = [(i, s, caps)]"
| "matchRegex (Atom c) i s caps =
     (case s of [] \<Rightarrow> [] | x # xs \<Rightarrow> if inClass c x then [(Suc i, xs, caps)] else [])"
| "matchRegex Bol i s caps = (if i = 0 then [(i, s, caps)] else [])"
| "matchRegex Eol i s caps = (if s = [] then [(i, s, caps)] else [])"
| "matchRegex (Seq a b) i s caps =
     concat (map (\<lambda>(i', s', caps'). matchRegex b i' s' caps') (matchRegex a i s caps))"
| "matchRegex (Opt a) i s caps =
     filter (\<lambda>(i', s', caps'). i' \<noteq> i) (matchRegex a i s caps) @ [(i, s, caps)]"
| "matchRegex (Star c) i [] caps = [(i, [], caps)]"
| "matchRegex (Star c) i (x # xs) caps =
     (if inClass c x then matchRegex (Star c) (Suc i) xs caps @ [(i, x # xs, caps)]
      else [(i, x # xs, caps)])"
| "matchRegex (LazyStar c) i [] caps = [(i, [], caps)]"
| "matchRegex (LazyStar c) i (x # xs) caps =
     (i, x # xs, caps) #
     (if inClass c x then matchRegex (LazyStar c) (Suc i) xs caps else [])"
| "matchRegex (Group g a) i s caps =
     map (\<lambda>(i', s', caps'). (i', s', caps'(g := Some (take (i' - i) s)))) (matchRegex a i s caps)"

text \<open>
  \<^verbatim>\<open>String.prototype.match\<close> with a pattern that has no \<^verbatim>\<open>g\<close> flag: the first start index,
  from 0 up, at which the pattern matches, and the best match there.
\<close>

definition regexMatch :: "regex \<Rightarrow> string \<Rightarrow> captures option" where
  "regexMatch r s =
     (case concat (map (\<lambda>i. matchRegex r i (drop i s) (\<lambda>g. None)) [0..<Suc (length s)]) of
        [] \<Rightarrow> None
      | (i, rest, caps) # others \<Rightarrow> Some caps)"

definition literal :: "string \<Rightarrow> regex" where
  "literal s = foldr (\<lambda>c r. Seq (Atom (CChar c)) r) s Empty"

section \<open>The data model (types.ts)\<close>

text \<open>
  Field names carry the name of their interface where two interfaces share a name:
  \<open>groupId\<close>, \<open>groupName\<close> for \<^verbatim>\<open>URLGroup.id\<close>, \<^verbatim>\<open>URLGroup.name\<close>, and so on.
  A \<^verbatim>\<open>Date\<close> is the number of milliseconds that \<^verbatim>\<open>Date.now()\<close> returns.
\<close>

datatype MessageSender = USER | MODEL | SYSTEM

record UrlContextMetadataItem =
  retrievedUrl :: string
  urlRetrievalStatus :: string

record ChatMessage =
  msgId :: string
  msgText :: string
  sender :: MessageSender
  timestamp :: nat
  msgIsLoading :: "bool option"
  urlContext :: "UrlContextMetadataItem list option"

record URLGroup =
  groupId :: string
  groupName :: string
  urls :: "string list"

record FileContext =
  fileName :: string
  fileContent :: string

section \<open>The AI gateway (geminiService.ts)\<close>

text \<open>
  What the remote API is asked and what it answers. A thrown value is an \<^verbatim>\<open>Error\<close> with its
  message and its \<^verbatim>\<open>type\<close> property, or something that is not an \<^verbatim>\<open>Error\<close>. The remote
  service is a parameter \<open>remote\<close>: the outcome of the \<open>n\<close>-th call of an operation, given
  its request. Each operation returns its result together with the requests it sent.
\<close>

datatype thrown = JsError string "string option" | NonError

datatype Tool = GoogleSearch | UrlContext

record InlineData =
  inlineDataData :: "string option"
  inlineMimeType :: "string option"

record Part =
  inlineData :: "InlineData option"
  partText :: "string option"

record Content =
  parts :: "Part list option"

record UrlContextMetadata =
  urlMetadata :: "UrlContextMetadataItem list option"

record Candidate =
  candidateContent :: "Content option"
  urlContextMetadata :: "UrlContextMetadata option"

record GenerateContentResponse =
  responseText :: "string option"
  candidates :: "Candidate list option"

text \<open>
  The text of a request is a template literal: literal text, and the values interpolated
  into it, which the engine converts to strings when it evaluates the literal. A value
  taken from a parsed JSON document is kept as that value.
\<close>

datatype piece = Lit string | Val "ustring json"

record Request =
  reqModel :: string
  reqText :: "piece list"
  reqInlineData :: "InlineData option"
  reqTools :: "Tool list option"
  reqSafetySettings :: bool
  reqThinkingBudget :: "nat option"
  reqResponseMimeType :: "string option"
  reqResponseSchema :: bool
  reqResponseModalities :: "string list option"

type_synonym remote = "nat \<Rightarrow> Request \<Rightarrow> thrown + GenerateContentResponse"

record GeminiResponse =
  geminiText :: string
  geminiUrlContextMetadata :: "UrlContextMetadataItem list option"

definition MODEL_NAME :: string where
  "MODEL_NAME = ''gemini-2.5-flash''"

definition IMAGE_MODEL_NAME :: string where
  "IMAGE_MODEL_NAME = ''gemini-2.5-flash-image''"

definition newline :: string where
  "newline = [CHR 0x0A]"

definition templateRequest :: "string \<Rightarrow> piece list \<Rightarrow> Request" where
  "templateRequest m ps =
     \<lparr>reqModel = m, reqText = ps, reqInlineData = None, reqTools = None,
      reqSafetySettings = False, reqThinkingBudget = None, reqResponseMimeType = None,
      reqResponseSchema = False, reqResponseModalities = None\<rparr>"

definition plainRequest :: "string \<Rightarrow> string \<Rightarrow> Request" where
  "plainRequest m t = templateRequest m [Lit t]"

subsection \<open>Contextual chat completion\<close>

definition fullPrompt :: "string \<Rightarrow> string list \<Rightarrow> FileContext option \<Rightarrow> string \<Rightarrow> string" where
  "fullPrompt prompt urlList fileCtx custom =
     (let p0 = (if truthy (trim custom)
                then custom @ newline @ newline @ ''User Question: '' @ prompt else prompt);
          p1 = (case fileCtx of
                  Some fc \<Rightarrow>
                    p0 @ newline @ newline @ ''Use the following file context from \"'' @
                    fileName fc @ ''\":'' @ newline @ ''---'' @ newline @ fileContent fc @
                    newline @ ''---''
                | None \<Rightarrow> p0)
      in if length urlList > 0
         then p1 @ newline @ newline @ ''Relevant URLs for context:'' @ newline @
              join urlList newline
         else p1)"

definition chatRequest ::
  "string \<Rightarrow> string list \<Rightarrow> FileContext option \<Rightarrow> bool \<Rightarrow> bool \<Rightarrow> string \<Rightarrow> Request" where
  "chatRequest prompt urlList fileCtx webSearch thinking custom =
     (plainRequest MODEL_NAME (fullPrompt prompt urlList fileCtx custom))
       \<lparr>reqTools := Some (if webSearch then [GoogleSearch] else [UrlContext]),
        reqSafetySettings := True,
        reqThinkingBudget := (if \<not> thinking then Some 0 else None)\<rparr>"

definition chatError :: "thrown \<Rightarrow> thrown" where
  "chatError e =
     (case e of
        JsError msg ty \<Rightarrow>
          if truthy msg \<and> includes_str msg ''API key not valid''
            then JsError ''Invalid API Key. Please check the key you provided.'' None
          else if truthy msg \<and> includes_str msg ''quota''
            then JsError ''API quota exceeded. Please check your Gemini API quota.'' None
          else if ty = Some ''GoogleGenAIError'' \<and> truthy msg
            then JsError (''Gemini API Error: '' @ msg) None
          else JsError (''Failed to get response from AI: '' @ msg) None
      | NonError \<Rightarrow> JsError ''Failed to get response from AI due to an unknown error.'' None)"

text \<open>\<^verbatim>\<open>response.candidates?.[0]\<close>\<close>

definition firstCandidate :: "GenerateContentResponse \<Rightarrow> Candidate option" where
  "firstCandidate response =
     (case candidates response of None \<Rightarrow> None | Some [] \<Rightarrow> None | Some (c # _) \<Rightarrow> Some c)"

definition extractedUrlContextMetadata ::
  "GenerateContentResponse \<Rightarrow> UrlContextMetadataItem list option" where
  "extractedUrlContextMetadata response =
     (case firstCandidate response of
        None \<Rightarrow> None
      | Some candidate \<Rightarrow>
          (case urlContextMetadata candidate of None \<Rightarrow> None | Some m \<Rightarrow> urlMetadata m))"

definition generateContentWithUrlContext ::
  "remote \<Rightarrow> string \<Rightarrow> string list \<Rightarrow> FileContext option \<Rightarrow> bool \<Rightarrow> bool \<Rightarrow> string \<Rightarrow>
   (thrown + GeminiResponse) \<times> Request list" where
  "generateContentWithUrlContext remote prompt urlList fileCtx webSearch thinking custom =
     (let request = chatRequest prompt urlList fileCtx webSearch thinking custom
      in (case remote 0 request of
            Inr response \<Rightarrow>
              Inr \<lparr>geminiText = orElse (responseText response) [],
                   geminiUrlContextMetadata = extractedUrlContextMetadata response\<rparr>
          | Inl e \<Rightarrow> Inl (chatError e),
          [request]))"

subsection \<open>Initial suggestions\<close>

definition fallbackSuggestions :: "string json" where
  "fallbackSuggestions =
     JObj [(''suggestions'', JArr [JStr ''Add some URLs or a file to get topic suggestions.''])]"

definition suggestionsPrompt :: "string list \<Rightarrow> string option \<Rightarrow> string" where
  "suggestionsPrompt urlList fileText =
     (let c0 = (case fileText of
                  Some t \<Rightarrow>
                    if truthy t
                    then ''Based on the content of the following text file:'' @ newline @ ''---'' @
                         newline @ t @ newline @ ''---'' @ newline @ newline
                    else []
                | None \<Rightarrow> []);
          contextPrompt =
            (if length urlList > 0
             then c0 @ ''And based on the content of the following documentation URLs:'' @
                  newline @ join urlList newline @ newline @ newline
             else c0)
      in contextPrompt @
         ''Provide 3-4 concise and actionable questions a developer might ask to explore this content. These questions should be suitable as quick-start prompts. Return ONLY a JSON object with a key \"suggestions\" containing an array of these question strings. For example: {\"suggestions\": [\"What are the rate limits?\", \"How do I get an API key?\", \"Explain model X.\"]}'')"

definition suggestionsError :: "thrown \<Rightarrow> thrown" where
  "suggestionsError e =
     (case e of
        JsError msg ty \<Rightarrow>
          if truthy msg \<and> includes_str msg ''API key not valid''
            then JsError ''Invalid API Key. Please check the key you provided.'' None
          else JsError (''Failed to get initial suggestions from AI: '' @ msg) None
      | NonError \<Rightarrow>
          JsError ''Failed to get initial suggestions from AI due to an unknown error.'' None)"

definition getInitialSuggestions ::
  "remote \<Rightarrow> string list \<Rightarrow> string option \<Rightarrow> (thrown + GeminiResponse) \<times> Request list" where
  "getInitialSuggestions remote urlList fileText =
     (if length urlList = 0 \<and> \<not> truthy (orElse fileText [])
      then (Inr \<lparr>geminiText = JSON_stringify fallbackSuggestions,
                 geminiUrlContextMetadata = None\<rparr>, [])
      else
        (let request = (plainRequest MODEL_NAME (suggestionsPrompt urlList fileText))
               \<lparr>reqSafetySettings := True, reqResponseMimeType := Some ''application/json''\<rparr>
         in (case remote 0 request of
               Inr response \<Rightarrow>
                 Inr \<lparr>geminiText = orElse (responseText response) [],
                      geminiUrlContextMetadata = None\<rparr>
             | Inl e \<Rightarrow> Inl (suggestionsError e),
             [request])))"

subsection \<open>Image editing\<close>

record EditedImage =
  base64Image :: string
  editedText :: string
  editedMimeType :: string

text \<open>\<^verbatim>\<open>response.candidates?.[0]?.content?.parts || []\<close>\<close>

definition responseParts :: "GenerateContentResponse \<Rightarrow> Part list" where
  "responseParts response =
     (case firstCandidate response of
        None \<Rightarrow> []
      | Some candidate \<Rightarrow>
          (case candidateContent candidate of
             None \<Rightarrow> []
           | Some c \<Rightarrow> (case parts c of None \<Rightarrow> [] | Some ps \<Rightarrow> ps)))"

text \<open>
  One turn of the loop over the parts, on \<open>(resultImage, resultText, resultMimeType)\<close>.
\<close>

fun editImageStep :: "string \<times> string \<times> string \<Rightarrow> Part \<Rightarrow> string \<times> string \<times> string" where
  "editImageStep (resultImage, resultText, resultMimeType) part =
     (case inlineData part of
        Some d \<Rightarrow> (orElse (inlineDataData d) [], resultText, orElse (inlineMimeType d) resultMimeType)
      | None \<Rightarrow>
          (case partText part of
             Some t \<Rightarrow> if truthy t then (resultImage, resultText @ t, resultMimeType)
                       else (resultImage, resultText, resultMimeType)
           | None \<Rightarrow> (resultImage, resultText, resultMimeType)))"

definition editImageError :: "thrown \<Rightarrow> thrown" where
  "editImageError e =
     (case e of
        JsError msg ty \<Rightarrow> JsError (''Image editing failed: '' @ msg) None
      | NonError \<Rightarrow> JsError ''An unknown error occurred during image editing.'' None)"

definition noImageMessage :: string where
  "noImageMessage = ''The model did not return an image. It might have refused the request.''"

definition editImageRequest :: "string \<Rightarrow> string \<Rightarrow> string \<Rightarrow> Request" where
  "editImageRequest prompt base64ImageData mimeType =
     (plainRequest IMAGE_MODEL_NAME prompt)
       \<lparr>reqInlineData :=
          Some \<lparr>inlineDataData = Some base64ImageData, inlineMimeType = Some mimeType\<rparr>,
        reqResponseModalities := Some [''IMAGE'', ''TEXT'']\<rparr>"

definition editImage ::
  "remote \<Rightarrow> string \<Rightarrow> string \<Rightarrow> string \<Rightarrow> (thrown + EditedImage) \<times> Request list" where
  "editImage remote prompt base64ImageData mimeType =
     (let request = editImageRequest prompt base64ImageData mimeType
      in (case remote 0 request of
            Inr response \<Rightarrow>
              (case foldl editImageStep ([], [], ''image/png'') (responseParts response) of
                 (resultImage, resultText, resultMimeType) \<Rightarrow>
                   if \<not> truthy resultImage
                   then Inl (editImageError (JsError noImageMessage None))
                   else Inr \<lparr>base64Image = resultImage,
                             editedText = (if truthy resultText then resultText
                                           else ''Image edited successfully.''),
                             editedMimeType = resultMimeType\<rparr>)
          | Inl e \<Rightarrow> Inl (editImageError e),
          [request]))"

subsection \<open>Book generation\<close>

text \<open>
  The title and the chapter titles of a book are whatever JSON values the outline holds
  (strings, when the model keeps to the schema); the title is absent when the outline
  has no \<^verbatim>\<open>title\<close> member.
\<close>

record Chapter =
  chapterTitle :: "ustring json"
  chapterContent :: string

record Book =
  bookTitle :: "ustring json option"
  chapters :: "Chapter list"

text \<open>The pattern \<^verbatim>\<open>/^```(\w*)?\s*\n?(.*?)\n?\s*```$/s\<close>.\<close>

definition fenceRegex :: regex where
  "fenceRegex =
     Seq Bol (Seq (literal ''```'') (Seq (Opt (Group 1 (Star CWord))) (Seq (Star CSpace)
       (Seq (Opt (Atom (CChar (CHR 0x0A)))) (Seq (Group 2 (LazyStar CAny))
         (Seq (Opt (Atom (CChar (CHR 0x0A)))) (Seq (Star CSpace)
           (Seq (literal ''```'') Eol))))))))"

definition outlineError :: thrown where
  "outlineError = JsError ''Could not generate a valid book outline.'' None"

text \<open>
  The \<^verbatim>\<open>try\<close> block: trim the response text, take the second group of the fence pattern
  when it matches and the group is not empty, and parse. The only thing that can throw
  inside it is \<^verbatim>\<open>JSON.parse\<close>.
\<close>

definition stripFence :: "string \<Rightarrow> string" where
  "stripFence jsonStr =
     (case regexMatch fenceRegex jsonStr of
        None \<Rightarrow> jsonStr
      | Some match \<Rightarrow>
          (case match 2 of
             None \<Rightarrow> jsonStr
           | Some g \<Rightarrow> if truthy g then trim g else jsonStr))"

definition parseOutline :: "string option \<Rightarrow> thrown + ustring json" where
  "parseOutline text =
     (case JSON_parse (stripFence (trim (orElse text []))) of
        None \<Rightarrow> Inl outlineError
      | Some outline \<Rightarrow> Inr outline)"

text \<open>
  \<^verbatim>\<open>const { title, chapters: chapterTitles } = outline\<close>, followed by \<^verbatim>\<open>chapterTitles.map\<close>:
  a \<^verbatim>\<open>TypeError\<close> unless the outline is an object whose \<^verbatim>\<open>chapters\<close> member is an array.
  The wording of the error is the engine's.
\<close>

definition typeError :: thrown where
  "typeError = JsError ''TypeError'' None"

definition destructureOutline ::
  "ustring json \<Rightarrow> thrown + ustring json option \<times> ustring json list" where
  "destructureOutline outline =
     (case outline of
        JNull \<Rightarrow> Inl typeError
      | _ \<Rightarrow>
          (case getProp outline (units ''chapters'') of
             Some (JArr chapterTitles) \<Rightarrow>
               Inr (getProp outline (units ''title''), chapterTitles)
           | _ \<Rightarrow> Inl typeError))"

definition outlineRequest :: "string \<Rightarrow> Request" where
  "outlineRequest topic =
     (plainRequest MODEL_NAME
        (''Generate a comprehensive book outline for the topic: \"'' @ topic @
         ''\". Include a book title and a list of 5-7 relevant chapter titles. Return ONLY a JSON object.''))
       \<lparr>reqResponseMimeType := Some ''application/json'', reqResponseSchema := True\<rparr>"

text \<open>
  The request for a chapter interpolates the chapter title, an element of the parsed
  outline, into its text.
\<close>

definition chapterRequest :: "string \<Rightarrow> ustring json \<Rightarrow> Request" where
  "chapterRequest topic title =
     (templateRequest MODEL_NAME
        [Lit (''Write a detailed, well-structured chapter for a book about \"'' @ topic @
              ''\". The title of this chapter is \"''),
         Val title,
         Lit ''\". The content should be comprehensive, engaging, and formatted in Markdown.''])
       \<lparr>reqSafetySettings := True\<rparr>"

definition chapterPlaceholder :: string where
  "chapterPlaceholder = ''Content generation for this chapter failed.''"

text \<open>The \<^verbatim>\<open>then\<close> callback of a chapter request.\<close>

definition resolvedChapter :: "ustring json \<Rightarrow> GenerateContentResponse \<Rightarrow> Chapter" where
  "resolvedChapter title response =
     \<lparr>chapterTitle = title, chapterContent = orElse (responseText response) chapterPlaceholder\<rparr>"

text \<open>
  \<^verbatim>\<open>Promise.all\<close>: the values, in the order of the list, when every promise is fulfilled;
  otherwise the reason of the rejected promise that settles first. The order in time is
  the parameter \<open>settled\<close>: the indices of the promises in the order in which they settle
  (an index outside the list counts for nothing, and the promises that \<open>settled\<close> does
  not name settle after the others, in the order of the list).
\<close>

definition settleOrder :: "nat list \<Rightarrow> nat \<Rightarrow> nat list" where
  "settleOrder settled n = filter (\<lambda>i. i < n) settled @ [0..<n]"

definition promiseAll :: "nat list \<Rightarrow> (thrown + 'a) list \<Rightarrow> thrown + 'a list" where
  "promiseAll settled ps =
     (case find (\<lambda>i. isl (ps ! i)) (settleOrder settled (length ps)) of
        Some i \<Rightarrow> Inl (projl (ps ! i))
      | None \<Rightarrow> Inr (map projr ps))"

text \<open>
  The chapter promises: the \<open>i\<close>-th chapter request is call \<open>i + 1\<close> of the operation (the
  outline request is call 0). A promise is rejected when its request is; the
  \<^verbatim>\<open>then\<close> callback runs on a fulfilled one.
\<close>

definition chapterPromises ::
  "remote \<Rightarrow> string \<Rightarrow> ustring json list \<Rightarrow> (thrown + Chapter) list" where
  "chapterPromises remote topic chapterTitles =
     map (\<lambda>(i, title).
            case remote (Suc i) (chapterRequest topic title) of
              Inl e \<Rightarrow> Inl e
            | Inr response \<Rightarrow> Inr (resolvedChapter title response))
       (zip [0..<length chapterTitles] chapterTitles)"

definition generateBook ::
  "remote \<Rightarrow> nat list \<Rightarrow> string \<Rightarrow> (thrown + Book) \<times> Request list" where
  "generateBook remote settled topic =
     (case remote 0 (outlineRequest topic) of
        Inl e \<Rightarrow> (Inl e, [outlineRequest topic])
      | Inr outlineResponse \<Rightarrow>
          (case parseOutline (responseText outlineResponse) of
             Inl e \<Rightarrow> (Inl e, [outlineRequest topic])
           | Inr outline \<Rightarrow>
               (case destructureOutline outline of
                  Inl e \<Rightarrow> (Inl e, [outlineRequest topic])
                | Inr (title, chapterTitles) \<Rightarrow>
                    (case promiseAll settled (chapterPromises remote topic chapterTitles) of
                       Inl e \<Rightarrow> Inl e
                     | Inr resolvedChapters \<Rightarrow>
                         Inr \<lparr>bookTitle = title, chapters = resolvedChapters\<rparr>,
                     outlineRequest topic # map (chapterRequest topic) chapterTitles))))"

section \<open>Session state (App.tsx)\<close>

text \<open>The modes \<^verbatim>\<open>'chat'\<close>, \<^verbatim>\<open>'image'\<close> and \<^verbatim>\<open>'book'\<close>.\<close>

datatype Mode = ChatMode | ImageMode | BookMode

record App =
  urlGroups :: "URLGroup list"
  activeUrlGroupId :: string
  fileContext :: "FileContext option"
  chatMessages :: "ChatMessage list"
  isLoading :: bool
  isFetchingSuggestions :: bool
  initialQuerySuggestions :: "ustring list"
  mode :: Mode
  useWebSearch :: bool
  useThinking :: bool
  customPrompt :: string
  isAppLoading :: bool

text \<open>
  The values given to \<^verbatim>\<open>useState\<close> when the component mounts. The state variables
  \<^verbatim>\<open>isSidebarOpen\<close>, \<^verbatim>\<open>isLoggedIn\<close> and \<^verbatim>\<open>userEmail\<close> only select what is drawn; no handler
  or effect below reads them, and they are left out.
\<close>

definition initialApp :: App where
  "initialApp =
     \<lparr>urlGroups = [], activeUrlGroupId = [], fileContext = None, chatMessages = [],
      isLoading = False, isFetchingSuggestions = False, initialQuerySuggestions = [],
      mode = ChatMode, useWebSearch = False, useThinking = True, customPrompt = [],
      isAppLoading = True\<rparr>"

definition MAX_URLS :: nat where
  "MAX_URLS = 20"

text \<open>\<^verbatim>\<open>urlGroups.find(group => group.id === activeUrlGroupId)\<close>: the first match.\<close>

definition activeGroup :: "App \<Rightarrow> URLGroup option" where
  "activeGroup s = find (\<lambda>group. groupId group = activeUrlGroupId s) (urlGroups s)"

definition currentUrlsForChat :: "App \<Rightarrow> string list" where
  "currentUrlsForChat s = (case activeGroup s of Some g \<Rightarrow> urls g | None \<Rightarrow> [])"

subsection \<open>Local context\<close>

definition handleSetTextContext :: "string \<Rightarrow> App \<Rightarrow> App" where
  "handleSetTextContext content s =
     (if truthy (trim content)
      then s\<lparr>fileContext := Some \<lparr>fileName = ''Pasted Content'', fileContent = trim content\<rparr>\<rparr>
      else s\<lparr>fileContext := None\<rparr>)"

text \<open>
  \<^verbatim>\<open>handleAddFile\<close>, given the type and name of the file and the text that the reader
  delivers: the context is set when the read completes, which is taken to happen at once.
\<close>

definition handleAddFile :: "string \<Rightarrow> string \<Rightarrow> string \<Rightarrow> App \<Rightarrow> App" where
  "handleAddFile fileType name fileText s =
     (if fileType \<noteq> ''text/plain'' then s
      else s\<lparr>fileContext := Some \<lparr>fileName = name, fileContent = fileText\<rparr>\<rparr>)"

definition handleRemoveFile :: "App \<Rightarrow> App" where
  "handleRemoveFile s = s\<lparr>fileContext := None\<rparr>"

subsection \<open>Knowledge-base groups\<close>

text \<open>
  \<^verbatim>\<open>handleAddUrl\<close> of App.tsx: every group whose id is the active id gets the URL
  appended, cut to the first \<open>MAX_URLS\<close> entries.
\<close>

definition handleAddUrl :: "string \<Rightarrow> App \<Rightarrow> App" where
  "handleAddUrl url s =
     s\<lparr>urlGroups :=
         map (\<lambda>group. if groupId group = activeUrlGroupId s
                       then group\<lparr>urls := take MAX_URLS (urls group @ [url])\<rparr>
                       else group)
           (urlGroups s)\<rparr>"

definition handleRemoveUrl :: "string \<Rightarrow> App \<Rightarrow> App" where
  "handleRemoveUrl urlToRemove s =
     s\<lparr>urlGroups :=
         map (\<lambda>group. if groupId group = activeUrlGroupId s
                       then group\<lparr>urls := filter (\<lambda>url. url \<noteq> urlToRemove) (urls group)\<rparr>
                       else group)
           (urlGroups s)\<rparr>"

text \<open>\<open>now\<close> is the value of \<^verbatim>\<open>Date.now()\<close> at the call.\<close>

definition handleAddGroup :: "nat \<Rightarrow> string \<Rightarrow> App \<Rightarrow> App" where
  "handleAddGroup now name s =
     (let newGroup = \<lparr>groupId = ''group-'' @ numberToString now, groupName = name, urls = []\<rparr>
      in s\<lparr>urlGroups := urlGroups s @ [newGroup], activeUrlGroupId := groupId newGroup\<rparr>)"

text \<open>
  \<^verbatim>\<open>handleRemoveGroup\<close>: \<open>confirmed\<close> is the answer of \<^verbatim>\<open>window.confirm\<close>, which is asked
  only when more than one group exists. \<^verbatim>\<open>remaining[0]?.id || ''\<close> is the id of the first
  remaining group, or the empty string when there is none.
\<close>

definition firstId :: "URLGroup list \<Rightarrow> string" where
  "firstId gs = orElse (case gs of [] \<Rightarrow> None | g # _ \<Rightarrow> Some (groupId g)) []"

definition handleRemoveGroup :: "bool \<Rightarrow> string \<Rightarrow> App \<Rightarrow> App" where
  "handleRemoveGroup confirmed gid s =
     (if length (urlGroups s) \<le> 1 then s
      else if confirmed then
        (let remaining = filter (\<lambda>g. groupId g \<noteq> gid) (urlGroups s)
         in s\<lparr>activeUrlGroupId :=
                 (if activeUrlGroupId s = gid then firstId remaining else activeUrlGroupId s),
               urlGroups := remaining\<rparr>)
      else s)"

definition handleRenameGroup :: "string \<Rightarrow> string \<Rightarrow> App \<Rightarrow> App" where
  "handleRenameGroup gid newName s =
     (if \<not> truthy (trim newName) then s
      else s\<lparr>urlGroups :=
               map (\<lambda>g. if groupId g = gid then g\<lparr>groupName := trim newName\<rparr> else g)
                 (urlGroups s)\<rparr>)"

text \<open>\<^verbatim>\<open>onSetGroupId\<close> and \<^verbatim>\<open>onModeChange\<close> are the plain state setters.\<close>

definition setActiveUrlGroupId :: "string \<Rightarrow> App \<Rightarrow> App" where
  "setActiveUrlGroupId gid s = s\<lparr>activeUrlGroupId := gid\<rparr>"

definition setMode :: "Mode \<Rightarrow> App \<Rightarrow> App" where
  "setMode m s = s\<lparr>mode := m\<rparr>"

subsection \<open>Effects\<close>

text \<open>
  The effect that checks the login status when the component mounts. Of its writes, the
  one read below is the last: the app is no longer loading.
\<close>

definition checkLoginStatus :: "App \<Rightarrow> App" where
  "checkLoginStatus s = s\<lparr>isAppLoading := False\<rparr>"

text \<open>
  \<^verbatim>\<open>getInitialUrlGroups\<close> reads the groups kept in \<^verbatim>\<open>localStorage\<close>. \<open>parsed\<close> is the array
  that \<^verbatim>\<open>JSON.parse\<close> makes of the text stored under \<^verbatim>\<open>urlGroups\<close>, taken for a list of
  groups as the code takes it, without a check of its elements; it is \<open>None\<close> when no
  text is stored, when the text is empty or does not parse, and when the parsed value is
  not an array. What the storage holds is not under the control of the session, so
  \<open>parsed\<close> is a parameter.
\<close>

definition getInitialUrlGroups :: "URLGroup list option \<Rightarrow> nat \<Rightarrow> URLGroup list" where
  "getInitialUrlGroups parsed now =
     (let fresh = [\<lparr>groupId = ''group-'' @ numberToString now,
                    groupName = ''My First Knowledge Base'', urls = []\<rparr>]
      in case parsed of
           Some groups \<Rightarrow> if length groups > 0 then groups else fresh
         | None \<Rightarrow> fresh)"

text \<open>
  The effect that loads the groups once the login check is done (dependency
  \<^verbatim>\<open>isAppLoading\<close>). \<open>savedActiveId\<close> is what \<^verbatim>\<open>localStorage\<close> holds under
  \<^verbatim>\<open>activeUrlGroupId\<close>.
\<close>

definition loadEffect :: "URLGroup list option \<Rightarrow> string option \<Rightarrow> nat \<Rightarrow> App \<Rightarrow> App" where
  "loadEffect parsed savedActiveId now s =
     (if isAppLoading s then s
      else
        (let userGroups = getInitialUrlGroups parsed now
         in s\<lparr>urlGroups := userGroups,
              activeUrlGroupId :=
                (case savedActiveId of
                   Some saved \<Rightarrow>
                     if truthy saved \<and> list_ex (\<lambda>g. groupId g = saved) userGroups then saved
                     else firstId userGroups
                 | None \<Rightarrow> firstId userGroups)\<rparr>))"

text \<open>
  The effect that keeps the active id on an existing group (dependencies \<^verbatim>\<open>urlGroups\<close>,
  \<^verbatim>\<open>activeUrlGroupId\<close>); its writes to \<^verbatim>\<open>localStorage\<close> are left out.
\<close>

definition groupsEffect :: "nat \<Rightarrow> App \<Rightarrow> App" where
  "groupsEffect now s =
     (if urlGroups s \<noteq> [] \<and> \<not> list_ex (\<lambda>g. groupId g = activeUrlGroupId s) (urlGroups s)
        then (case urlGroups s of g # _ \<Rightarrow> s\<lparr>activeUrlGroupId := groupId g\<rparr> | [] \<Rightarrow> s)
      else if urlGroups s = [] then
        (let newDefaultGroup =
               \<lparr>groupId = ''group-'' @ numberToString now, groupName = ''My Knowledge Base'',
                urls = []\<rparr>
         in s\<lparr>urlGroups := [newDefaultGroup], activeUrlGroupId := groupId newDefaultGroup\<rparr>)
      else s)"

text \<open>
  The welcome-message effect (dependencies \<^verbatim>\<open>activeUrlGroupId\<close>, \<^verbatim>\<open>urlGroups\<close>,
  \<^verbatim>\<open>fileContext\<close>, \<^verbatim>\<open>mode\<close>). React runs it after a render in which one of them changed.
\<close>

definition welcomeMessageText :: "App \<Rightarrow> string" where
  "welcomeMessageText s =
     (let currentActiveGroup = find (\<lambda>group. groupId group = activeUrlGroupId s) (urlGroups s)
      in ''Welcome to Chat Mode! You're viewing the \"'' @
         orElse (map_option groupName currentActiveGroup) ''Untitled'' @
         ''\" knowledge base.'' @
         (if (case currentActiveGroup of Some g \<Rightarrow> length (urls g) > 0 | None \<Rightarrow> False) \<or>
             fileContext s \<noteq> None
          then '' Ask me anything, or try a suggestion.''
          else '' Add documentation URLs or a file to start asking questions.''))"

definition welcomeEffect :: "nat \<Rightarrow> App \<Rightarrow> App" where
  "welcomeEffect now s =
     (if mode s \<noteq> ChatMode then s
      else s\<lparr>chatMessages :=
               [\<lparr>msgId = ''system-welcome-'' @ activeUrlGroupId s @ ''-'' @ numberToString now,
                 msgText = welcomeMessageText s, sender = SYSTEM, timestamp = now,
                 msgIsLoading = None, urlContext = None\<rparr>]\<rparr>)"

subsection \<open>Sending a chat message\<close>

text \<open>
  \<^verbatim>\<open>handleSendMessage\<close> runs in two parts. The part before the \<^verbatim>\<open>await\<close> either returns at
  once or marks the session as loading, appends the user's message and a placeholder, and
  starts a contextual chat completion with the values of the current render; \<open>ChatCall\<close>
  records that call. The part after the \<^verbatim>\<open>await\<close> runs when the call settles. The two
  \<^verbatim>\<open>Date.now()\<close> of one invocation are taken to give the same number.
\<close>

record ChatCall =
  callPlaceholder :: ChatMessage
  callQuery :: string
  callUrls :: "string list"
  callFileContext :: "FileContext option"
  callUseWebSearch :: bool
  callUseThinking :: bool
  callCustomPrompt :: string

definition handleSendMessage :: "nat \<Rightarrow> string \<Rightarrow> App \<Rightarrow> App \<times> ChatCall option" where
  "handleSendMessage now query s =
     (if \<not> truthy (trim query) \<or> isLoading s \<or> isFetchingSuggestions s then (s, None)
      else
        (let userMessage =
               \<lparr>msgId = ''user-'' @ numberToString now, msgText = query, sender = USER,
                timestamp = now, msgIsLoading = None, urlContext = None\<rparr>;
             modelPlaceholder =
               \<lparr>msgId = ''model-'' @ numberToString now, msgText = ''Thinking...'',
                sender = MODEL, timestamp = now, msgIsLoading = Some True, urlContext = None\<rparr>
         in (s\<lparr>isLoading := True, initialQuerySuggestions := [],
               chatMessages := chatMessages s @ [userMessage, modelPlaceholder]\<rparr>,
             Some \<lparr>callPlaceholder = modelPlaceholder, callQuery = query,
                   callUrls = currentUrlsForChat s, callFileContext = fileContext s,
                   callUseWebSearch = useWebSearch s, callUseThinking = useThinking s,
                   callCustomPrompt = customPrompt s\<rparr>)))"

text \<open>\<^verbatim>\<open>e.message\<close> of a caught value.\<close>

fun thrownMessage :: "thrown \<Rightarrow> string option" where
  "thrownMessage (JsError msg ty) = Some msg"
| "thrownMessage NonError = None"

definition chatSettled :: "ChatCall \<Rightarrow> thrown + GeminiResponse \<Rightarrow> App \<Rightarrow> App" where
  "chatSettled call outcome s =
     (let modelPlaceholder = callPlaceholder call;
          replacement =
            (case outcome of
               Inr response \<Rightarrow>
                 modelPlaceholder
                   \<lparr>msgText := (if truthy (geminiText response) then geminiText response
                                else ''I received an empty response.''),
                    msgIsLoading := Some False,
                    urlContext := geminiUrlContextMetadata response\<rparr>
             | Inl e \<Rightarrow>
                 modelPlaceholder
                   \<lparr>msgText := ''Error: '' @ (case thrownMessage e of Some m \<Rightarrow> m
                                                | None \<Rightarrow> ''undefined''),
                    sender := SYSTEM, msgIsLoading := Some False\<rparr>)
      in s\<lparr>chatMessages :=
             map (\<lambda>msg. if msgId msg = msgId modelPlaceholder then replacement else msg)
               (chatMessages s),
           isLoading := False\<rparr>)"

subsection \<open>Fetching suggestions\<close>

text \<open>
  \<^verbatim>\<open>fetchAndSetInitialSuggestions\<close>, again in two parts around its \<^verbatim>\<open>await\<close>, and the effect
  that starts it. The text of the answer is trimmed, stripped by
  \<^verbatim>\<open>replace(/^```json\s*|```\s*$/g, '')\<close> and parsed. The first alternative of that pattern
  can match at index 0 only and the second only up to the end of the string, so the
  replacement drops a matching head and then cuts at the first position from which the
  second alternative matches.
\<close>

record SuggestionsCall =
  callCurrentUrls :: "string list"
  callFileCtx :: "FileContext option"

definition fetchAndSetInitialSuggestions ::
  "string list \<Rightarrow> FileContext option \<Rightarrow> App \<Rightarrow> App \<times> SuggestionsCall option" where
  "fetchAndSetInitialSuggestions currentUrls fileCtx s =
     (if length currentUrls = 0 \<and> fileCtx = None then (s, None)
      else (s\<lparr>isFetchingSuggestions := True, initialQuerySuggestions := []\<rparr>,
            Some \<lparr>callCurrentUrls = currentUrls, callFileCtx = fileCtx\<rparr>))"

definition suggestionsEffect :: "App \<Rightarrow> App \<times> SuggestionsCall option" where
  "suggestionsEffect s =
     (if mode s = ChatMode \<and> (length (currentUrlsForChat s) > 0 \<or> fileContext s \<noteq> None)
      then fetchAndSetInitialSuggestions (currentUrlsForChat s) (fileContext s) s
      else (s\<lparr>initialQuerySuggestions := []\<rparr>, None))"

definition jsonFenceHead :: regex where
  "jsonFenceHead = Seq Bol (Seq (literal ''```json'') (Star CSpace))"

definition fenceTail :: regex where
  "fenceTail = Seq (literal ''```'') (Seq (Star CSpace) Eol)"

fun cutFenceTail :: "nat \<Rightarrow> string \<Rightarrow> string" where
  "cutFenceTail i [] = []"
| "cutFenceTail i (c # cs) =
     (if matchRegex fenceTail i (c # cs) (\<lambda>g. None) \<noteq> [] then []
      else c # cutFenceTail (Suc i) cs)"

definition stripJsonFence :: "string \<Rightarrow> string" where
  "stripJsonFence s =
     (case matchRegex jsonFenceHead 0 s (\<lambda>g. None) of
        (i, rest, caps) # others \<Rightarrow> cutFenceTail i rest
      | [] \<Rightarrow> cutFenceTail 0 s)"

fun jsonStrings :: "ustring json list \<Rightarrow> ustring list" where
  "jsonStrings [] = []"
| "jsonStrings (JStr s # vs) = s # jsonStrings vs"
| "jsonStrings (v # vs) = jsonStrings vs"

definition parsedSuggestions :: "string \<Rightarrow> ustring list" where
  "parsedSuggestions text =
     (if \<not> truthy text then []
      else (case JSON_parse (stripJsonFence (trim text)) of
              None \<Rightarrow> []
            | Some parsed \<Rightarrow>
                (case getProp parsed (units ''suggestions'') of
                   Some (JArr vs) \<Rightarrow> jsonStrings vs
                 | _ \<Rightarrow> [])))"

definition suggestionsSettled :: "nat \<Rightarrow> thrown + GeminiResponse \<Rightarrow> App \<Rightarrow> App" where
  "suggestionsSettled now outcome s =
     (case outcome of
        Inr response \<Rightarrow>
          s\<lparr>initialQuerySuggestions := take 4 (parsedSuggestions (geminiText response)),
            isFetchingSuggestions := False\<rparr>
      | Inl e \<Rightarrow>
          s\<lparr>chatMessages := chatMessages s @
               [\<lparr>msgId = ''sys-err-suggestion-fetch-'' @ numberToString now,
                 msgText = ''Error: '' @ orElse (thrownMessage e)
                                           ''Failed to fetch initial suggestions.'',
                 sender = SYSTEM, timestamp = now, msgIsLoading = None, urlContext = None\<rparr>],
            isFetchingSuggestions := False\<rparr>)"

subsection \<open>The URL form (KnowledgeBaseManager.tsx)\<close>

text \<open>
  The component's own state, and its \<^verbatim>\<open>handleAddUrl\<close>, named
  \<open>KnowledgeBaseManager_handleAddUrl\<close> here. App.tsx passes \<open>currentUrlsForChat\<close> as
  \<^verbatim>\<open>urls\<close>, \<open>MAX_URLS\<close> as \<^verbatim>\<open>maxUrls\<close> and its own \<open>handleAddUrl\<close> as \<^verbatim>\<open>onAddUrl\<close>.
  \<^verbatim>\<open>isValidUrl\<close> asks the browser's URL parser, which is not part of the repository: its
  verdict is the parameter \<open>isValidUrl\<close>.
\<close>

record KnowledgeBaseManager =
  currentUrlInput :: string
  error :: "string option"
  pastedText :: string

definition initialKnowledgeBaseManager :: KnowledgeBaseManager where
  "initialKnowledgeBaseManager = \<lparr>currentUrlInput = [], error = None, pastedText = []\<rparr>"

definition emptyError :: string where
  "emptyError = ''URL cannot be empty.''"

definition invalidError :: string where
  "invalidError = ''Invalid URL format. Please include http:// or https://''"

definition limitError :: "nat \<Rightarrow> string" where
  "limitError maxUrls =
     ''You can add a maximum of '' @ numberToString maxUrls @ '' URLs to the current group.''"

definition duplicateError :: string where
  "duplicateError = ''This URL has already been added to the current group.''"

definition KnowledgeBaseManager_handleAddUrl ::
  "(string \<Rightarrow> bool) \<Rightarrow> KnowledgeBaseManager \<times> App \<Rightarrow> KnowledgeBaseManager \<times> App" where
  "KnowledgeBaseManager_handleAddUrl isValidUrl ks =
     (let k = fst ks; s = snd ks in
      if \<not> truthy (trim (currentUrlInput k)) then (k\<lparr>error := Some emptyError\<rparr>, s)
      else if \<not> isValidUrl (currentUrlInput k) then (k\<lparr>error := Some invalidError\<rparr>, s)
      else if length (currentUrlsForChat s) \<ge> MAX_URLS
        then (k\<lparr>error := Some (limitError MAX_URLS)\<rparr>, s)
      else if currentUrlInput k \<in> set (currentUrlsForChat s)
        then (k\<lparr>error := Some duplicateError\<rparr>, s)
      else (k\<lparr>currentUrlInput := [], error := None\<rparr>, handleAddUrl (currentUrlInput k) s))"

definition setCurrentUrlInput :: "string \<Rightarrow> KnowledgeBaseManager \<Rightarrow> KnowledgeBaseManager" where
  "setCurrentUrlInput v k = k\<lparr>currentUrlInput := v\<rparr>"

text \<open>
  The add-URL operation as the user performs it: type the URL into the field, then
  submit. \<open>addUrls\<close> performs a sequence of them.
\<close>

definition addUrl ::
  "(string \<Rightarrow> bool) \<Rightarrow> string \<Rightarrow> KnowledgeBaseManager \<times> App \<Rightarrow> KnowledgeBaseManager \<times> App" where
  "addUrl isValidUrl url ks =
     KnowledgeBaseManager_handleAddUrl isValidUrl (setCurrentUrlInput url (fst ks), snd ks)"


definition handleSavePastedText :: "KnowledgeBaseManager \<times> App \<Rightarrow> KnowledgeBaseManager \<times> App" where
  "handleSavePastedText ks =
     ((fst ks)\<lparr>pastedText := []\<rparr>, handleSetTextContext (pastedText (fst ks)) (snd ks))"

section \<open>The session as a transition system\<close>

text \<open>
  The session: the state of the App component, the state of the URL form, and the remote
  calls that were started and have not settled yet. An event is one handler invocation,
  one run of an effect, or the settling of one pending call, each acting on the state as
  it is then. Events may come in any order here; React allows fewer orders (it runs an
  effect only after a render that changed one of its dependencies, and offers the
  knowledge-base controls in chat mode only). A session starts with the effects of the
  mount, among them the login check and, once that has cleared \<open>isAppLoading\<close>, the
  loading of the groups.
\<close>

record Session =
  app :: App
  form :: KnowledgeBaseManager
  chatCalls :: "ChatCall list"
  suggestionsCalls :: "SuggestionsCall list"

definition initialSession :: Session where
  "initialSession =
     \<lparr>app = initialApp, form = initialKnowledgeBaseManager, chatCalls = [],
      suggestionsCalls = []\<rparr>"

datatype Event =
    TypeUrl string
  | SubmitUrl
  | RemoveUrl string
  | AddGroup nat string
  | RemoveGroup bool string
  | RenameGroup string string
  | SelectGroup string
  | ChangeMode Mode
  | SetTextContext string
  | AddFile string string string
  | RemoveFile
  | ToggleWebSearch bool
  | ToggleThinking bool
  | EditCustomPrompt string
  | CheckLoginStatus
  | LoadEffect "URLGroup list option" "string option" nat
  | GroupsEffect nat
  | WelcomeEffect nat
  | SuggestionsEffect
  | SuggestionsSettle nat remote nat
  | SendMessage nat string
  | ChatSettle nat remote

definition removeAt :: "nat \<Rightarrow> 'a list \<Rightarrow> 'a list" where
  "removeAt i xs = take i xs @ drop (Suc i) xs"

definition startChat :: "App \<times> ChatCall option \<Rightarrow> Session \<Rightarrow> Session" where
  "startChat r \<sigma> =
     \<sigma>\<lparr>app := fst r,
       chatCalls := (case snd r of None \<Rightarrow> chatCalls \<sigma> | Some call \<Rightarrow> chatCalls \<sigma> @ [call])\<rparr>"

definition startSuggestions :: "App \<times> SuggestionsCall option \<Rightarrow> Session \<Rightarrow> Session" where
  "startSuggestions r \<sigma> =
     \<sigma>\<lparr>app := fst r,
       suggestionsCalls :=
         (case snd r of None \<Rightarrow> suggestionsCalls \<sigma> | Some call \<Rightarrow> suggestionsCalls \<sigma> @ [call])\<rparr>"

text \<open>The answer of the gateway to a pending call, given how the remote service behaves.\<close>

definition chatOutcome :: "remote \<Rightarrow> ChatCall \<Rightarrow> thrown + GeminiResponse" where
  "chatOutcome remote call =
     fst (generateContentWithUrlContext remote (callQuery call) (callUrls call)
            (callFileContext call) (callUseWebSearch call) (callUseThinking call)
            (callCustomPrompt call))"

definition suggestionsOutcome :: "remote \<Rightarrow> SuggestionsCall \<Rightarrow> thrown + GeminiResponse" where
  "suggestionsOutcome remote call =
     fst (getInitialSuggestions remote (callCurrentUrls call)
            (case callFileCtx call of
               None \<Rightarrow> None
             | Some fc \<Rightarrow> if truthy (fileContent fc) then Some (fileContent fc) else None))"

fun step :: "(string \<Rightarrow> bool) \<Rightarrow> Session \<Rightarrow> Event \<Rightarrow> Session" where
  "step isValidUrl \<sigma> (TypeUrl v) = \<sigma>\<lparr>form := setCurrentUrlInput v (form \<sigma>)\<rparr>"
| "step isValidUrl \<sigma> SubmitUrl =
     (case KnowledgeBaseManager_handleAddUrl isValidUrl (form \<sigma>, app \<sigma>) of
        (k, s) \<Rightarrow> \<sigma>\<lparr>app := s, form := k\<rparr>)"
| "step isValidUrl \<sigma> (RemoveUrl u) = \<sigma>\<lparr>app := handleRemoveUrl u (app \<sigma>)\<rparr>"
| "step isValidUrl \<sigma> (AddGroup now name) = \<sigma>\<lparr>app := handleAddGroup now name (app \<sigma>)\<rparr>"
| "step isValidUrl \<sigma> (RemoveGroup confirmed gid) =
     \<sigma>\<lparr>app := handleRemoveGroup confirmed gid (app \<sigma>)\<rparr>"
| "step isValidUrl \<sigma> (RenameGroup gid newName) =
     \<sigma>\<lparr>app := handleRenameGroup gid newName (app \<sigma>)\<rparr>"
| "step isValidUrl \<sigma> (SelectGroup gid) = \<sigma>\<lparr>app := setActiveUrlGroupId gid (app \<sigma>)\<rparr>"
| "step isValidUrl \<sigma> (ChangeMode m) = \<sigma>\<lparr>app := setMode m (app \<sigma>)\<rparr>"
| "step isValidUrl \<sigma> (SetTextContext t) = \<sigma>\<lparr>app := handleSetTextContext t (app \<sigma>)\<rparr>"
| "step isValidUrl \<sigma> (AddFile fileType name fileText) =
     \<sigma>\<lparr>app := handleAddFile fileType name fileText (app \<sigma>)\<rparr>"
| "step isValidUrl \<sigma> RemoveFile = \<sigma>\<lparr>app := handleRemoveFile (app \<sigma>)\<rparr>"
| "step isValidUrl \<sigma> (ToggleWebSearch b) = \<sigma>\<lparr>app := (app \<sigma>)\<lparr>useWebSearch := b\<rparr>\<rparr>"
| "step isValidUrl \<sigma> (ToggleThinking b) = \<sigma>\<lparr>app := (app \<sigma>)\<lparr>useThinking := b\<rparr>\<rparr>"
| "step isValidUrl \<sigma> (EditCustomPrompt t) = \<sigma>\<lparr>app := (app \<sigma>)\<lparr>customPrompt := t\<rparr>\<rparr>"
| "step isValidUrl \<sigma> CheckLoginStatus = \<sigma>\<lparr>app := checkLoginStatus (app \<sigma>)\<rparr>"
| "step isValidUrl \<sigma> (LoadEffect parsed savedActiveId now) =
     \<sigma>\<lparr>app := loadEffect parsed savedActiveId now (app \<sigma>)\<rparr>"
| "step isValidUrl \<sigma> (GroupsEffect now) = \<sigma>\<lparr>app := groupsEffect now (app \<sigma>)\<rparr>"
| "step isValidUrl \<sigma> (WelcomeEffect now) = \<sigma>\<lparr>app := welcomeEffect now (app \<sigma>)\<rparr>"
| "step isValidUrl \<sigma> SuggestionsEffect = startSuggestions (suggestionsEffect (app \<sigma>)) \<sigma>"
| "step isValidUrl \<sigma> (SuggestionsSettle i remote now) =
     (if i < length (suggestionsCalls \<sigma>)
      then \<sigma>\<lparr>app := suggestionsSettled now
                      (suggestionsOutcome remote (suggestionsCalls \<sigma> ! i)) (app \<sigma>),
             suggestionsCalls := removeAt i (suggestionsCalls \<sigma>)\<rparr>
      else \<sigma>)"
| "step isValidUrl \<sigma> (SendMessage now query) =
     startChat (handleSendMessage now query (app \<sigma>)) \<sigma>"
| "step isValidUrl \<sigma> (ChatSettle i remote) =
     (if i < length (chatCalls \<sigma>)
      then \<sigma>\<lparr>app := chatSettled (chatCalls \<sigma> ! i) (chatOutcome remote (chatCalls \<sigma> ! i))
                      (app \<sigma>),
             chatCalls := removeAt i (chatCalls \<sigma>)\<rparr>
      else \<sigma>)"

definition run :: "(string \<Rightarrow> bool) \<Rightarrow> Event list \<Rightarrow> Session \<Rightarrow> Session" where
  "run isValidUrl events \<sigma> = foldl (step isValidUrl) \<sigma> events"

text \<open>
  The invariant of chat sends: the loading flag is set exactly while a chat call is
  pending, and at most one is. The invariant of suggestion fetches is weaker: the
  suggestion-fetch flag is set only while a fetch is pending.
\<close>

definition chatInvariant :: "Session \<Rightarrow> bool" where
  "chatInvariant \<sigma> \<longleftrightarrow>
     (isLoading (app \<sigma>) \<longleftrightarrow> chatCalls \<sigma> \<noteq> []) \<and> length (chatCalls \<sigma>) \<le> 1"

definition fetchInvariant :: "Session \<Rightarrow> bool" where
  "fetchInvariant \<sigma> \<longleftrightarrow> (isFetchingSuggestions (app \<sigma>) \<longrightarrow> suggestionsCalls \<sigma> \<noteq> [])"

subsection \<open>Sample answers of the remote service\<close>

text \<open>
  \<open>scripted\<close> answers the \<open>n\<close>-th call with the \<open>n\<close>-th outcome of a list, whatever the
  request, and rejects any further call.
\<close>

definition scripted :: "(thrown + GenerateContentResponse) list \<Rightarrow> remote" where
  "scripted outcomes n request = (if n < length outcomes then outcomes ! n else Inl NonError)"

definition textResponse :: "string \<Rightarrow> GenerateContentResponse" where
  "textResponse t = \<lparr>responseText = Some t, candidates = None\<rparr>"

definition emptyResponse :: GenerateContentResponse where
  "emptyResponse = \<lparr>responseText = None, candidates = None\<rparr>"

definition refusalResponse :: GenerateContentResponse where
  "refusalResponse =
     \<lparr>responseText = Some ''I cannot edit this.'',
      candidates = Some [\<lparr>candidateContent =
          Some \<lparr>parts = Some [\<lparr>inlineData = None, partText = Some ''I cannot edit this.''\<rparr>]\<rparr>,
        urlContextMetadata = None\<rparr>]\<rparr>"

definition outlineText :: string where
  "outlineText = ''{\"title\":\"T\",\"chapters\":[\"A\",\"B\"]}''"

definition fencedOutlineText :: string where
  "fencedOutlineText = ''```json'' @ newline @ outlineText @ newline @ ''```''"

subsection \<open>Sample states\<close>

text \<open>
  Concrete inputs for the examples below. \<open>sampleIsValidUrl\<close> is a verdict on URLs for
  them: it accepts exactly the strings that begin with \<^verbatim>\<open>https://a.io/\<close>, each of which
  the URL parser accepts, and so rejects \<^verbatim>\<open>example.com\<close>, as the URL parser does.
  \<open>fullGroup\<close> holds twenty URLs.
\<close>

definition sampleIsValidUrl :: "string \<Rightarrow> bool" where
  "sampleIsValidUrl u \<longleftrightarrow> startsWith u ''https://a.io/''"

definition fullGroup :: URLGroup where
  "fullGroup =
     \<lparr>groupId = ''group-1'', groupName = ''Docs'',
      urls = [''https://a.io/0'', ''https://a.io/1'', ''https://a.io/2'', ''https://a.io/3'',
              ''https://a.io/4'', ''https://a.io/5'', ''https://a.io/6'', ''https://a.io/7'',
              ''https://a.io/8'', ''https://a.io/9'', ''https://a.io/10'', ''https://a.io/11'',
              ''https://a.io/12'', ''https://a.io/13'', ''https://a.io/14'', ''https://a.io/15'',
              ''https://a.io/16'', ''https://a.io/17'', ''https://a.io/18'', ''https://a.io/19'']\<rparr>"

definition notesGroup :: URLGroup where
  "notesGroup = \<lparr>groupId = ''group-2'', groupName = ''Notes'', urls = []\<rparr>"

definition docsGroup :: URLGroup where
  "docsGroup = \<lparr>groupId = ''group-3'', groupName = ''API'', urls = [''https://a.io/0'']\<rparr>"

definition smallApp :: App where
  "smallApp = initialApp\<lparr>urlGroups := [docsGroup, notesGroup], activeUrlGroupId := ''group-3''\<rparr>"

definition sampleApp :: App where
  "sampleApp = initialApp\<lparr>urlGroups := [fullGroup, notesGroup], activeUrlGroupId := ''group-1''\<rparr>"

text \<open>
  A session in which two suggestion fetches overlap. The component mounts (the stored
  groups are an empty array, so a fresh group is made); the user adds a URL, which starts
  a fetch; the user adds a second URL before the answer is there, which starts another
  fetch; then the first fetch is answered.
\<close>

definition suggestionsAnswer :: remote where
  "suggestionsAnswer = scripted [Inr (textResponse ''{\"suggestions\":[\"What is a.io?\"]}'')]"

definition overlappingFetches :: "Event list" where
  "overlappingFetches =
     [CheckLoginStatus, GroupsEffect 1, LoadEffect (Some []) None 2, WelcomeEffect 2,
      TypeUrl ''https://a.io/1'', SubmitUrl, WelcomeEffect 3, SuggestionsEffect,
      TypeUrl ''https://a.io/2'', SubmitUrl, WelcomeEffect 4, SuggestionsEffect,
      SuggestionsSettle 0 suggestionsAnswer 5]"

section \<open>Properties\<close>

subsection \<open>Trimming\<close>

lemma trimEnd_Nil_iff: "trimEnd s = [] \<longleftrightarrow> (\<forall>c\<in>set s. isWhiteSpace c)"
  by (auto simp: trimEnd_def)

lemma trim_Nil_iff: "trim s = [] \<longleftrightarrow> (\<forall>c\<in>set s. isWhiteSpace c)"
proof
  assume "trim s = []"
  then have "\<forall>c\<in>set (dropWhile isWhiteSpace s). isWhiteSpace c"
    by (simp add: trim_def trimStart_def trimEnd_Nil_iff)
  then have "dropWhile isWhiteSpace s = []"
    by (metis hd_dropWhile list.set_sel(1))
  then show "\<forall>c\<in>set s. isWhiteSpace c"
    by simp
next
  assume "\<forall>c\<in>set s. isWhiteSpace c"
  then have "dropWhile isWhiteSpace s = []"
    by simp
  then show "trim s = []"
    by (simp add: trim_def trimStart_def trimEnd_def del: dropWhile_eq_Nil_conv)
qed

text \<open>
  C10. Setting the text context with an empty or all-white-space string clears the local
  context, whatever it was; with any other string the local context becomes the one named
  "Pasted Content" whose content is the trimmed string.
\<close>

theorem handleSetTextContext_spec:
  "((\<forall>c\<in>set content. isWhiteSpace c) \<longrightarrow>
      fileContext (handleSetTextContext content s) = None) \<and>
   (\<not> (\<forall>c\<in>set content. isWhiteSpace c) \<longrightarrow>
      fileContext (handleSetTextContext content s) =
        Some \<lparr>fileName = ''Pasted Content'', fileContent = trim content\<rparr>)"
  by (simp add: handleSetTextContext_def truthy_def trim_Nil_iff)

theorem handleSetTextContext_spec_witness:
  "list_all isWhiteSpace ''  '' \<and>
   fileContext (handleSetTextContext ''  ''
      (initialApp\<lparr>fileContext := Some \<lparr>fileName = ''a.txt'', fileContent = ''x''\<rparr>\<rparr>)) = None \<and>
   \<not> list_all isWhiteSpace '' hi '' \<and>
   fileContext (handleSetTextContext '' hi '' initialApp) =
     Some \<lparr>fileName = ''Pasted Content'', fileContent = ''hi''\<rparr>"
proof -
  have blank: "\<forall>c\<in>set ''  ''. isWhiteSpace c"
    by (simp add: isWhiteSpace_def)
  have nonblank: "\<not> (\<forall>c\<in>set '' hi ''. isWhiteSpace c)"
    by (simp add: isWhiteSpace_def)
  have t: "trim '' hi '' = ''hi''"
    by (simp add: trim_def trimStart_def trimEnd_def isWhiteSpace_def)
  from handleSetTextContext_spec [of "''  ''"
      "initialApp\<lparr>fileContext := Some \<lparr>fileName = ''a.txt'', fileContent = ''x''\<rparr>\<rparr>"]
    handleSetTextContext_spec [of "'' hi ''" initialApp] blank nonblank t
  show ?thesis by (simp add: list_all_iff)
qed

subsection \<open>Adding URLs\<close>

lemma limitError_MAX_URLS:
  "limitError MAX_URLS = ''You can add a maximum of 20 URLs to the current group.''"
  by (simp add: limitError_def MAX_URLS_def numberToString.simps [of 20]
      numberToString.simps [of 2] digit_def)





text \<open>What the form reports, and that it leaves the session alone, when the group is full.\<close>

lemma addUrl_full:
  "length (currentUrlsForChat s) \<ge> MAX_URLS \<Longrightarrow>
   snd (addUrl v u (k, s)) = s \<and>
   error (fst (addUrl v u (k, s))) =
     Some (if \<not> truthy (trim u) then emptyError else if \<not> v u then invalidError
           else limitError MAX_URLS)"
  by (simp add: addUrl_def KnowledgeBaseManager_handleAddUrl_def setCurrentUrlInput_def Let_def)

text \<open>The same for a URL that the active group already holds.\<close>

lemma addUrl_present:
  "u \<in> set (currentUrlsForChat s) \<Longrightarrow>
   snd (addUrl v u (k, s)) = s \<and>
   error (fst (addUrl v u (k, s))) =
     Some (if \<not> truthy (trim u) then emptyError else if \<not> v u then invalidError
           else if length (currentUrlsForChat s) \<ge> MAX_URLS then limitError MAX_URLS
           else duplicateError)"
  by (simp add: addUrl_def KnowledgeBaseManager_handleAddUrl_def setCurrentUrlInput_def Let_def)

lemma find_map_upd:
  assumes "\<And>g. groupId (f g) = groupId g"
  shows "find (\<lambda>g. groupId g = a) (map (\<lambda>g. if groupId g = a then f g else g) gs) =
         map_option f (find (\<lambda>g. groupId g = a) gs)"
  using assms by (induction gs) auto

lemma filter_map_upd:
  assumes "\<And>g. groupId (f g) = groupId g"
  shows "filter (\<lambda>g. groupId g \<noteq> a) (map (\<lambda>g. if groupId g = a then f g else g) gs) =
         filter (\<lambda>g. groupId g \<noteq> a) gs"
  using assms by (induction gs) auto

text \<open>Switching to a group with room that lacks the URL, then adding it, appends it there.\<close>

lemma addUrl_other:
  assumes "find (\<lambda>g. groupId g = gid2) (urlGroups s) = Some g2"
    and "u \<notin> set (urls g2)" and "length (urls g2) < MAX_URLS"
    and "truthy (trim u)" and "v u"
  shows "activeGroup (snd (addUrl v u (k, setActiveUrlGroupId gid2 s))) =
           Some (g2\<lparr>urls := urls g2 @ [u]\<rparr>) \<and>
         filter (\<lambda>g. groupId g \<noteq> gid2)
             (urlGroups (snd (addUrl v u (k, setActiveUrlGroupId gid2 s)))) =
           filter (\<lambda>g. groupId g \<noteq> gid2) (urlGroups s) \<and>
         error (fst (addUrl v u (k, setActiveUrlGroupId gid2 s))) = None"
proof -
  let ?s = "setActiveUrlGroupId gid2 s"
  let ?f = "\<lambda>g. g\<lparr>urls := take MAX_URLS (urls g @ [u])\<rparr>"
  from assms(1) have c: "currentUrlsForChat ?s = urls g2"
    by (simp add: currentUrlsForChat_def activeGroup_def setActiveUrlGroupId_def)
  with assms
  have step: "addUrl v u (k, ?s) = (k\<lparr>currentUrlInput := [], error := None\<rparr>, handleAddUrl u ?s)"
    by (simp add: addUrl_def KnowledgeBaseManager_handleAddUrl_def setCurrentUrlInput_def Let_def)
  have groups: "urlGroups (handleAddUrl u ?s) =
      map (\<lambda>g. if groupId g = gid2 then ?f g else g) (urlGroups s)"
    by (simp add: handleAddUrl_def setActiveUrlGroupId_def)
  have act: "activeUrlGroupId (handleAddUrl u ?s) = gid2"
    by (simp add: handleAddUrl_def setActiveUrlGroupId_def)
  from assms(3) have t: "?f g2 = g2\<lparr>urls := urls g2 @ [u]\<rparr>"
    by simp
  have "activeGroup (handleAddUrl u ?s) =
      map_option ?f (find (\<lambda>g. groupId g = gid2) (urlGroups s))"
    unfolding activeGroup_def act groups by (rule find_map_upd) simp
  with assms(1) t
  have 1: "activeGroup (handleAddUrl u ?s) = Some (g2\<lparr>urls := urls g2 @ [u]\<rparr>)"
    by simp
  have 2: "filter (\<lambda>g. groupId g \<noteq> gid2) (urlGroups (handleAddUrl u ?s)) =
           filter (\<lambda>g. groupId g \<noteq> gid2) (urlGroups s)"
    unfolding groups by (rule filter_map_upd) simp
  from 1 2 step show ?thesis by simp
qed

subsection \<open>Removing a group\<close>

lemma firstId_Cons: "firstId (g # gs) = groupId g"
  by (auto simp: firstId_def truthy_def)

lemma filter_distinct_le1:
  "distinct (map f xs) \<Longrightarrow> length (filter (\<lambda>x. f x = a) xs) \<le> 1"
proof (induction xs)
  case Nil
  then show ?case by simp
next
  case (Cons x xs)
  show ?case
  proof (cases "f x = a")
    case True
    from Cons.prems have "f x \<notin> f ` set xs" by simp
    with True have "\<forall>y\<in>set xs. f y \<noteq> a" by blast
    then have "filter (\<lambda>x. f x = a) xs = []" by (simp add: filter_empty_conv)
    with True show ?thesis by simp
  next
    case False
    with Cons show ?thesis by simp
  qed
qed

lemma remaining_nonempty:
  assumes "distinct (map groupId gs)" and "length gs > 1"
  shows "filter (\<lambda>g. groupId g \<noteq> gid) gs \<noteq> []"
proof -
  have "length (filter (\<lambda>g. groupId g = gid) gs) + length (filter (\<lambda>g. groupId g \<noteq> gid) gs)
          = length gs"
    using sum_length_filter_compl [of "\<lambda>g. groupId g = gid" gs] by simp
  moreover have "length (filter (\<lambda>g. groupId g = gid) gs) \<le> 1"
    using assms(1) by (rule filter_distinct_le1)
  ultimately have "length (filter (\<lambda>g. groupId g \<noteq> gid) gs) \<ge> 1"
    using assms(2) by linarith
  then show ?thesis by auto
qed

text \<open>
  C4. Removing a group is a no-op when exactly one group exists. With more than one
  group and the confirmation given, removing the active group leaves the groups with
  another id as they were, in their order, and changes nothing else in the session but
  the active id, which becomes the id of the first remaining group. A group does remain
  when the ids are distinct, as the data model has them.
\<close>

theorem handleRemoveGroup_spec:
  "(length (urlGroups s) = 1 \<longrightarrow> handleRemoveGroup confirmed gid s = s) \<and>
   (length (urlGroups s) > 1 \<and> activeUrlGroupId s = gid \<and>
    filter (\<lambda>g. groupId g \<noteq> gid) (urlGroups s) \<noteq> [] \<longrightarrow>
      urlGroups (handleRemoveGroup True gid s) =
        filter (\<lambda>g. groupId g \<noteq> gid) (urlGroups s) \<and>
      activeUrlGroupId (handleRemoveGroup True gid s) =
        groupId (hd (urlGroups (handleRemoveGroup True gid s))) \<and>
      handleRemoveGroup True gid s =
        s\<lparr>activeUrlGroupId := activeUrlGroupId (handleRemoveGroup True gid s),
          urlGroups := urlGroups (handleRemoveGroup True gid s)\<rparr>) \<and>
   (length (urlGroups s) > 1 \<and> distinct (map groupId (urlGroups s)) \<longrightarrow>
      filter (\<lambda>g. groupId g \<noteq> gid) (urlGroups s) \<noteq> [])"
proof (intro conjI impI)
  assume "length (urlGroups s) = 1"
  then show "handleRemoveGroup confirmed gid s = s"
    by (simp add: handleRemoveGroup_def)
next
  let ?r = "filter (\<lambda>g. groupId g \<noteq> gid) (urlGroups s)"
  assume a: "length (urlGroups s) > 1 \<and> activeUrlGroupId s = gid \<and> ?r \<noteq> []"
  then show g: "urlGroups (handleRemoveGroup True gid s) = ?r"
    by (simp add: handleRemoveGroup_def Let_def)
  from a obtain x xs where r: "?r = x # xs" by (cases ?r) auto
  from a r show "activeUrlGroupId (handleRemoveGroup True gid s) =
        groupId (hd (urlGroups (handleRemoveGroup True gid s)))"
    by (simp add: handleRemoveGroup_def Let_def firstId_Cons)
  from a show "handleRemoveGroup True gid s =
        s\<lparr>activeUrlGroupId := activeUrlGroupId (handleRemoveGroup True gid s),
          urlGroups := urlGroups (handleRemoveGroup True gid s)\<rparr>"
    by (simp add: handleRemoveGroup_def Let_def)
next
  assume "length (urlGroups s) > 1 \<and> distinct (map groupId (urlGroups s))"
  then show "filter (\<lambda>g. groupId g \<noteq> gid) (urlGroups s) \<noteq> []"
    by (simp add: remaining_nonempty)
qed

theorem handleRemoveGroup_spec_witness:
  "length (urlGroups (sampleApp\<lparr>urlGroups := [notesGroup]\<rparr>)) = 1 \<and>
   handleRemoveGroup True ''group-2'' (sampleApp\<lparr>urlGroups := [notesGroup]\<rparr>) =
     sampleApp\<lparr>urlGroups := [notesGroup]\<rparr> \<and>
   length (urlGroups sampleApp) > 1 \<and> activeUrlGroupId sampleApp = ''group-1'' \<and>
   distinct (map groupId (urlGroups sampleApp)) \<and>
   urlGroups (handleRemoveGroup True ''group-1'' sampleApp) = [notesGroup] \<and>
   activeUrlGroupId (handleRemoveGroup True ''group-1'' sampleApp) = ''group-2''"
proof -
  have one: "length (urlGroups (sampleApp\<lparr>urlGroups := [notesGroup]\<rparr>)) = 1"
    by simp
  have two: "length (urlGroups sampleApp) > 1 \<and> activeUrlGroupId sampleApp = ''group-1'' \<and>
      distinct (map groupId (urlGroups sampleApp))"
    by (simp add: sampleApp_def fullGroup_def notesGroup_def)
  have r: "filter (\<lambda>g. groupId g \<noteq> ''group-1'') (urlGroups sampleApp) = [notesGroup]"
    by (simp add: sampleApp_def fullGroup_def notesGroup_def)
  have i: "groupId notesGroup = ''group-2''"
    by (simp add: notesGroup_def)
  from handleRemoveGroup_spec [of "sampleApp\<lparr>urlGroups := [notesGroup]\<rparr>" True "''group-2''"]
    handleRemoveGroup_spec [of sampleApp True "''group-1''"] one two r i
  show ?thesis by simp
qed

subsection \<open>The limit of twenty URLs\<close>

lemma sampleApp_current: "currentUrlsForChat sampleApp = urls fullGroup"
  by (simp add: currentUrlsForChat_def activeGroup_def sampleApp_def fullGroup_def)

lemma sampleApp_full: "length (currentUrlsForChat sampleApp) = 20"
  by (simp add: sampleApp_current) (simp add: fullGroup_def)




subsection \<open>Duplicate URLs\<close>

text \<open>
  C3, as stated, fails: when the active group holds twenty URLs, submitting one of them
  again reports the limit error and not the duplicate error (the limit check comes
  before the duplicate check).
\<close>

theorem addUrl_duplicate_counterexample:
  "''https://a.io/0'' \<in> set (currentUrlsForChat sampleApp) \<and>
   error (fst (addUrl sampleIsValidUrl ''https://a.io/0''
       (initialKnowledgeBaseManager, sampleApp))) =
     Some ''You can add a maximum of 20 URLs to the current group.'' \<and>
   error (fst (addUrl sampleIsValidUrl ''https://a.io/0''
       (initialKnowledgeBaseManager, sampleApp))) \<noteq> Some duplicateError"
proof -
  have full: "length (currentUrlsForChat sampleApp) \<ge> MAX_URLS"
    by (simp add: sampleApp_full MAX_URLS_def)
  have ok: "truthy (trim ''https://a.io/0'') \<and> sampleIsValidUrl ''https://a.io/0''"
    by (simp add: truthy_def trim_def trimStart_def trimEnd_def isWhiteSpace_def
        sampleIsValidUrl_def)
  have mem: "''https://a.io/0'' \<in> set (currentUrlsForChat sampleApp)"
    by (simp add: sampleApp_current) (simp add: fullGroup_def)
  from addUrl_full [OF full, of sampleIsValidUrl "''https://a.io/0''"
      initialKnowledgeBaseManager] ok
  have "error (fst (addUrl sampleIsValidUrl ''https://a.io/0''
       (initialKnowledgeBaseManager, sampleApp))) = Some (limitError MAX_URLS)"
    by simp
  with mem show ?thesis
    by (simp add: limitError_MAX_URLS duplicateError_def)
qed

text \<open>
  C3, amended. Adding a URL that the active group already holds never changes the
  session and always reports an error; the error is the duplicate error when the URL is
  non-blank and well-formed and the group holds fewer than twenty URLs. A non-blank,
  well-formed URL held by one group is appended to a different group that lacks it and
  holds fewer than twenty URLs, once that group is made active: no error is reported and
  the groups with other ids stay as they were.
\<close>

theorem addUrl_duplicate:
  "(u \<in> set (currentUrlsForChat s) \<longrightarrow>
      snd (addUrl isValidUrl u (k, s)) = s \<and>
      error (fst (addUrl isValidUrl u (k, s))) \<noteq> None) \<and>
   (u \<in> set (currentUrlsForChat s) \<and> truthy (trim u) \<and> isValidUrl u \<and>
    length (currentUrlsForChat s) < MAX_URLS \<longrightarrow>
      error (fst (addUrl isValidUrl u (k, s))) =
        Some ''This URL has already been added to the current group.'') \<and>
   (g1 \<in> set (urlGroups s) \<and> u \<in> set (urls g1) \<and> groupId g1 \<noteq> gid2 \<and>
    find (\<lambda>g. groupId g = gid2) (urlGroups s) = Some g2 \<and>
    u \<notin> set (urls g2) \<and> length (urls g2) < MAX_URLS \<and> truthy (trim u) \<and> isValidUrl u \<longrightarrow>
      activeGroup (snd (addUrl isValidUrl u (k, setActiveUrlGroupId gid2 s))) =
        Some (g2\<lparr>urls := urls g2 @ [u]\<rparr>) \<and>
      filter (\<lambda>g. groupId g \<noteq> gid2)
          (urlGroups (snd (addUrl isValidUrl u (k, setActiveUrlGroupId gid2 s)))) =
        filter (\<lambda>g. groupId g \<noteq> gid2) (urlGroups s) \<and>
      error (fst (addUrl isValidUrl u (k, setActiveUrlGroupId gid2 s))) = None)"
proof (intro conjI impI)
  assume "u \<in> set (currentUrlsForChat s)"
  from addUrl_present [OF this, of isValidUrl k]
  show "snd (addUrl isValidUrl u (k, s)) = s"
    and "error (fst (addUrl isValidUrl u (k, s))) \<noteq> None"
    by simp_all
next
  assume a: "u \<in> set (currentUrlsForChat s) \<and> truthy (trim u) \<and> isValidUrl u \<and>
    length (currentUrlsForChat s) < MAX_URLS"
  then have "u \<in> set (currentUrlsForChat s)" by simp
  from addUrl_present [OF this, of isValidUrl k] a
  show "error (fst (addUrl isValidUrl u (k, s))) =
        Some ''This URL has already been added to the current group.''"
    by (simp add: duplicateError_def)
next
  assume a: "g1 \<in> set (urlGroups s) \<and> u \<in> set (urls g1) \<and> groupId g1 \<noteq> gid2 \<and>
    find (\<lambda>g. groupId g = gid2) (urlGroups s) = Some g2 \<and>
    u \<notin> set (urls g2) \<and> length (urls g2) < MAX_URLS \<and> truthy (trim u) \<and> isValidUrl u"
  then have *: "find (\<lambda>g. groupId g = gid2) (urlGroups s) = Some g2"
    "u \<notin> set (urls g2)" "length (urls g2) < MAX_URLS" "truthy (trim u)" "isValidUrl u"
    by simp_all
  from addUrl_other [where v = isValidUrl and k = k, OF *]
  show "activeGroup (snd (addUrl isValidUrl u (k, setActiveUrlGroupId gid2 s))) =
        Some (g2\<lparr>urls := urls g2 @ [u]\<rparr>)"
    and "filter (\<lambda>g. groupId g \<noteq> gid2)
          (urlGroups (snd (addUrl isValidUrl u (k, setActiveUrlGroupId gid2 s)))) =
        filter (\<lambda>g. groupId g \<noteq> gid2) (urlGroups s)"
    and "error (fst (addUrl isValidUrl u (k, setActiveUrlGroupId gid2 s))) = None"
    by simp_all
qed

theorem addUrl_duplicate_witness:
  "''https://a.io/0'' \<in> set (currentUrlsForChat smallApp) \<and>
   truthy (trim ''https://a.io/0'') \<and> sampleIsValidUrl ''https://a.io/0'' \<and>
   length (currentUrlsForChat smallApp) < MAX_URLS \<and>
   snd (addUrl sampleIsValidUrl ''https://a.io/0'' (initialKnowledgeBaseManager, smallApp)) =
     smallApp \<and>
   error (fst (addUrl sampleIsValidUrl ''https://a.io/0''
       (initialKnowledgeBaseManager, smallApp))) =
     Some ''This URL has already been added to the current group.'' \<and>
   docsGroup \<in> set (urlGroups smallApp) \<and> ''https://a.io/0'' \<in> set (urls docsGroup) \<and>
   groupId docsGroup \<noteq> ''group-2'' \<and>
   find (\<lambda>g. groupId g = ''group-2'') (urlGroups smallApp) = Some notesGroup \<and>
   ''https://a.io/0'' \<notin> set (urls notesGroup) \<and> length (urls notesGroup) < MAX_URLS \<and>
   activeGroup (snd (addUrl sampleIsValidUrl ''https://a.io/0''
       (initialKnowledgeBaseManager, setActiveUrlGroupId ''group-2'' smallApp))) =
     Some (notesGroup\<lparr>urls := [''https://a.io/0'']\<rparr>) \<and>
   error (fst (addUrl sampleIsValidUrl ''https://a.io/0''
       (initialKnowledgeBaseManager, setActiveUrlGroupId ''group-2'' smallApp))) = None"
proof -
  have cur: "currentUrlsForChat smallApp = [''https://a.io/0'']"
    by (simp add: currentUrlsForChat_def activeGroup_def smallApp_def docsGroup_def)
  have ok: "truthy (trim ''https://a.io/0'') \<and> sampleIsValidUrl ''https://a.io/0''"
    by (simp add: truthy_def trim_def trimStart_def trimEnd_def isWhiteSpace_def
        sampleIsValidUrl_def)
  have groups: "docsGroup \<in> set (urlGroups smallApp) \<and>
      ''https://a.io/0'' \<in> set (urls docsGroup) \<and> groupId docsGroup \<noteq> ''group-2'' \<and>
      find (\<lambda>g. groupId g = ''group-2'') (urlGroups smallApp) = Some notesGroup \<and>
      ''https://a.io/0'' \<notin> set (urls notesGroup) \<and> length (urls notesGroup) < MAX_URLS"
    by (simp add: smallApp_def docsGroup_def notesGroup_def MAX_URLS_def)
  have n: "urls notesGroup = []"
    by (simp add: notesGroup_def)
  from addUrl_duplicate [of "''https://a.io/0''" smallApp sampleIsValidUrl
      initialKnowledgeBaseManager docsGroup "''group-2''" notesGroup] cur ok groups n
  show ?thesis by (simp add: MAX_URLS_def)
qed

subsection \<open>The welcome message\<close>

lemma startsWith_append: "startsWith (p @ r) p"
  by (induction p) auto

lemma includes_str_prefix: "startsWith s n \<Longrightarrow> includes_str s n"
  by (cases s) (auto elim: startsWith.elims)

lemma includes_str_append: "includes_str s n \<Longrightarrow> includes_str (p @ s) n"
  by (induction p) auto

lemma includes_str_Nil: "includes_str s []"
  by (cases s) simp_all

lemma includes_str_mid: "includes_str (p @ n @ r) n"
  by (rule includes_str_append) (rule includes_str_prefix, rule startsWith_append)

lemma welcome_text_Some:
  assumes f: "find (\<lambda>g. groupId g = activeUrlGroupId s) (urlGroups s) = Some g"
  shows "includes_str (welcomeMessageText s) (groupName g)"
proof (cases "groupName g = []")
  case True
  then show ?thesis by (simp add: includes_str_Nil)
next
  case False
  with f have "welcomeMessageText s =
    ''Welcome to Chat Mode! You're viewing the \"'' @ groupName g @ (''\" knowledge base.'' @
       (if length (urls g) > 0 \<or> fileContext s \<noteq> None
        then '' Ask me anything, or try a suggestion.''
        else '' Add documentation URLs or a file to start asking questions.''))"
    by (simp add: welcomeMessageText_def truthy_def)
  then show ?thesis by (simp only: includes_str_mid)
qed

lemma welcome_text_None:
  assumes f: "find (\<lambda>g. groupId g = activeUrlGroupId s) (urlGroups s) = None"
  shows "includes_str (welcomeMessageText s) ''Untitled''"
proof -
  from f have "welcomeMessageText s =
    ''Welcome to Chat Mode! You're viewing the \"'' @ ''Untitled'' @ (''\" knowledge base.'' @
       (if fileContext s \<noteq> None
        then '' Ask me anything, or try a suggestion.''
        else '' Add documentation URLs or a file to start asking questions.''))"
    by (simp add: welcomeMessageText_def)
  then show ?thesis by (simp only: includes_str_mid)
qed

lemma welcomeEffect_chat:
  "mode s = ChatMode \<Longrightarrow>
   map sender (chatMessages (welcomeEffect now s)) = [SYSTEM] \<and>
   map msgText (chatMessages (welcomeEffect now s)) = [welcomeMessageText s]"
  by (simp add: welcomeEffect_def)

text \<open>
  C5. In chat mode, once the active group id has been set and the welcome effect has run,
  the transcript is one message, sent by the system, whose text contains the name of the
  group found under the new id, or "Untitled" when no group has that id. The same holds
  once the mode has been set to chat, for the group that is active then.
\<close>

theorem welcomeEffect_spec:
  "(mode s = ChatMode \<longrightarrow>
      map sender (chatMessages (welcomeEffect now (setActiveUrlGroupId gid s))) = [SYSTEM] \<and>
      (case find (\<lambda>g. groupId g = gid) (urlGroups s) of
         Some g \<Rightarrow>
           list_all (\<lambda>t. includes_str t (groupName g))
             (map msgText (chatMessages (welcomeEffect now (setActiveUrlGroupId gid s))))
       | None \<Rightarrow>
           list_all (\<lambda>t. includes_str t ''Untitled'')
             (map msgText (chatMessages (welcomeEffect now (setActiveUrlGroupId gid s)))))) \<and>
   map sender (chatMessages (welcomeEffect now (setMode ChatMode s))) = [SYSTEM] \<and>
   (case activeGroup s of
      Some g \<Rightarrow>
        list_all (\<lambda>t. includes_str t (groupName g))
          (map msgText (chatMessages (welcomeEffect now (setMode ChatMode s))))
    | None \<Rightarrow>
        list_all (\<lambda>t. includes_str t ''Untitled'')
          (map msgText (chatMessages (welcomeEffect now (setMode ChatMode s)))))"
proof (intro conjI impI)
  let ?a = "setActiveUrlGroupId gid s"
  assume c: "mode s = ChatMode"
  then have m: "mode ?a = ChatMode" by (simp add: setActiveUrlGroupId_def)
  from welcomeEffect_chat [OF m]
  show "map sender (chatMessages (welcomeEffect now ?a)) = [SYSTEM]" by simp
  have f: "find (\<lambda>g. groupId g = activeUrlGroupId ?a) (urlGroups ?a) =
      find (\<lambda>g. groupId g = gid) (urlGroups s)"
    by (simp add: setActiveUrlGroupId_def)
  show "case find (\<lambda>g. groupId g = gid) (urlGroups s) of
         Some g \<Rightarrow>
           list_all (\<lambda>t. includes_str t (groupName g))
             (map msgText (chatMessages (welcomeEffect now ?a)))
       | None \<Rightarrow>
           list_all (\<lambda>t. includes_str t ''Untitled'')
             (map msgText (chatMessages (welcomeEffect now ?a)))"
    using welcomeEffect_chat [OF m, of now] welcome_text_Some [of ?a] welcome_text_None [of ?a]
    by (simp add: f split: option.split)
next
  let ?c = "setMode ChatMode s"
  have m: "mode ?c = ChatMode" by (simp add: setMode_def)
  from welcomeEffect_chat [OF m]
  show "map sender (chatMessages (welcomeEffect now ?c)) = [SYSTEM]" by simp
  have f: "find (\<lambda>g. groupId g = activeUrlGroupId ?c) (urlGroups ?c) = activeGroup s"
    by (simp add: setMode_def activeGroup_def)
  show "case activeGroup s of
      Some g \<Rightarrow>
        list_all (\<lambda>t. includes_str t (groupName g))
          (map msgText (chatMessages (welcomeEffect now ?c)))
    | None \<Rightarrow>
        list_all (\<lambda>t. includes_str t ''Untitled'')
          (map msgText (chatMessages (welcomeEffect now ?c)))"
    using welcomeEffect_chat [OF m, of now] welcome_text_Some [of ?c] welcome_text_None [of ?c]
    by (simp add: f split: option.split)
qed

theorem welcomeEffect_spec_witness:
  "mode sampleApp = ChatMode \<and>
   map sender (chatMessages (welcomeEffect 7 (setActiveUrlGroupId ''group-2'' sampleApp))) =
     [SYSTEM] \<and>
   list_all (\<lambda>t. includes_str t ''Notes'')
     (map msgText (chatMessages (welcomeEffect 7 (setActiveUrlGroupId ''group-2'' sampleApp)))) \<and>
   chatMessages (welcomeEffect 7 (setActiveUrlGroupId ''group-2'' sampleApp)) =
     [\<lparr>msgId = ''system-welcome-group-2-7'',
       msgText = ''Welcome to Chat Mode! You're viewing the \"Notes\" knowledge base. Add documentation URLs or a file to start asking questions.'',
       sender = SYSTEM, timestamp = 7, msgIsLoading = None, urlContext = None\<rparr>] \<and>
   map sender (chatMessages (welcomeEffect 7 (setMode ChatMode (setMode BookMode sampleApp)))) =
     [SYSTEM] \<and>
   list_all (\<lambda>t. includes_str t ''Docs'')
     (map msgText (chatMessages (welcomeEffect 7 (setMode ChatMode (setMode BookMode sampleApp)))))"
proof -
  have m: "mode sampleApp = ChatMode"
    by (simp add: sampleApp_def initialApp_def)
  have f: "find (\<lambda>g. groupId g = ''group-2'') (urlGroups sampleApp) = Some notesGroup"
    by (simp add: sampleApp_def fullGroup_def notesGroup_def)
  have a: "activeGroup (setMode BookMode sampleApp) = Some fullGroup"
    by (simp add: activeGroup_def setMode_def sampleApp_def fullGroup_def)
  have n: "groupName notesGroup = ''Notes''" "groupName fullGroup = ''Docs''"
    by (simp_all add: notesGroup_def fullGroup_def)
  have switch: "map sender
        (chatMessages (welcomeEffect 7 (setActiveUrlGroupId ''group-2'' sampleApp))) = [SYSTEM] \<and>
      list_all (\<lambda>t. includes_str t ''Notes'')
        (map msgText (chatMessages (welcomeEffect 7 (setActiveUrlGroupId ''group-2'' sampleApp))))"
    using welcomeEffect_spec [of sampleApp 7 "''group-2''"] m by (simp add: f n)
  have toChat: "map sender
        (chatMessages (welcomeEffect 7 (setMode ChatMode (setMode BookMode sampleApp)))) = [SYSTEM] \<and>
      list_all (\<lambda>t. includes_str t ''Docs'')
        (map msgText (chatMessages (welcomeEffect 7 (setMode ChatMode (setMode BookMode sampleApp)))))"
    using welcomeEffect_spec [of "setMode BookMode sampleApp" 7 "''group-2''"] by (simp add: a n)
  have w: "chatMessages (welcomeEffect 7 (setActiveUrlGroupId ''group-2'' sampleApp)) =
     [\<lparr>msgId = ''system-welcome-group-2-7'',
       msgText = ''Welcome to Chat Mode! You're viewing the \"Notes\" knowledge base. Add documentation URLs or a file to start asking questions.'',
       sender = SYSTEM, timestamp = 7, msgIsLoading = None, urlContext = None\<rparr>]"
    by (simp add: welcomeEffect_def welcomeMessageText_def setActiveUrlGroupId_def
        sampleApp_def initialApp_def fullGroup_def notesGroup_def truthy_def
        numberToString.simps [of 7] digit_def)
  from m switch toChat w show ?thesis by blast
qed

subsection \<open>Initial suggestions\<close>

text \<open>
  C6. With an empty URL list and no local-context text (absent, or empty), the
  initial-suggestions operation sends no request and returns the fixed payload: the JSON
  text of an object whose \<^verbatim>\<open>suggestions\<close> array holds the one canned string.
\<close>

theorem getInitialSuggestions_fallback:
  "getInitialSuggestions remote [] None =
     (Inr \<lparr>geminiText =
             ''{\"suggestions\":[\"Add some URLs or a file to get topic suggestions.\"]}'',
           geminiUrlContextMetadata = None\<rparr>, []) \<and>
   getInitialSuggestions remote [] (Some []) = getInitialSuggestions remote [] None \<and>
   JSON_parse ''{\"suggestions\":[\"Add some URLs or a file to get topic suggestions.\"]}'' =
     Some (JObj [(units ''suggestions'',
       JArr [JStr (units ''Add some URLs or a file to get topic suggestions.'')])])"
proof (intro conjI)
  have t: "JSON_stringify fallbackSuggestions =
      ''{\"suggestions\":[\"Add some URLs or a file to get topic suggestions.\"]}''"
    by code_simp
  show "getInitialSuggestions remote [] None =
     (Inr \<lparr>geminiText =
             ''{\"suggestions\":[\"Add some URLs or a file to get topic suggestions.\"]}'',
           geminiUrlContextMetadata = None\<rparr>, [])"
    by (simp add: getInitialSuggestions_def truthy_def t)
  show "getInitialSuggestions remote [] (Some []) = getInitialSuggestions remote [] None"
    by (simp add: getInitialSuggestions_def truthy_def)
  show "JSON_parse ''{\"suggestions\":[\"Add some URLs or a file to get topic suggestions.\"]}'' =
     Some (JObj [(units ''suggestions'',
       JArr [JStr (units ''Add some URLs or a file to get topic suggestions.'')])])"
    by code_simp
qed

subsection \<open>Image editing\<close>

lemma editImageStep_no_image:
  "inlineData p = None \<Longrightarrow> fst (editImageStep acc p) = fst acc"
  by (cases acc) (simp split: option.split)

lemma foldl_editImageStep_no_image:
  "\<forall>p\<in>set ps. inlineData p = None \<Longrightarrow> fst (foldl editImageStep acc ps) = fst acc"
  by (induction ps arbitrary: acc) (simp_all add: editImageStep_no_image)

text \<open>
  C7. When the response to an image-editing request has no part with inline data, the
  operation fails with the error "Image editing failed: The model did not return an
  image. It might have refused the request."; it returns no result object.
\<close>

theorem editImage_no_image:
  assumes "remote 0 (editImageRequest prompt base64ImageData mimeType) = Inr response"
    and "\<forall>p\<in>set (responseParts response). inlineData p = None"
  shows "fst (editImage remote prompt base64ImageData mimeType) =
     Inl (JsError ''Image editing failed: The model did not return an image. It might have refused the request.'' None) \<and>
     includes_str ''Image editing failed: The model did not return an image. It might have refused the request.'' ''did not return an image''"
proof
  from assms(2)
  have "fst (foldl editImageStep ([], [], ''image/png'') (responseParts response)) = []"
    using foldl_editImageStep_no_image [of "responseParts response" "([], [], ''image/png'')"]
    by simp
  then obtain t mt
    where "foldl editImageStep ([], [], ''image/png'') (responseParts response) = ([], t, mt)"
    by (cases "foldl editImageStep ([], [], ''image/png'') (responseParts response)") auto
  with assms(1)
  show "fst (editImage remote prompt base64ImageData mimeType) =
     Inl (JsError ''Image editing failed: The model did not return an image. It might have refused the request.'' None)"
    by (simp add: editImage_def Let_def truthy_def editImageError_def noImageMessage_def)
  show "includes_str ''Image editing failed: The model did not return an image. It might have refused the request.'' ''did not return an image''"
    by code_simp
qed

theorem editImage_no_image_witness:
  "scripted [Inr refusalResponse] 0 (editImageRequest ''Add a hat'' ''aGVsbG8='' ''image/png'') =
     Inr refusalResponse \<and>
   responseParts refusalResponse =
     [\<lparr>inlineData = None, partText = Some ''I cannot edit this.''\<rparr>] \<and>
   list_all (\<lambda>p. inlineData p = None) (responseParts refusalResponse) \<and>
   fst (editImage (scripted [Inr refusalResponse]) ''Add a hat'' ''aGVsbG8='' ''image/png'') =
     Inl (JsError ''Image editing failed: The model did not return an image. It might have refused the request.'' None)"
proof -
  have a: "scripted [Inr refusalResponse] 0
      (editImageRequest ''Add a hat'' ''aGVsbG8='' ''image/png'') = Inr refusalResponse"
    by (simp add: scripted_def)
  have p: "responseParts refusalResponse =
      [\<lparr>inlineData = None, partText = Some ''I cannot edit this.''\<rparr>]"
    by (simp add: responseParts_def firstCandidate_def refusalResponse_def)
  have b: "\<forall>p\<in>set (responseParts refusalResponse). inlineData p = None"
    by (simp add: p)
  from editImage_no_image [of "scripted [Inr refusalResponse]" "''Add a hat''" "''aGVsbG8=''"
      "''image/png''" refusalResponse, OF a b] a b p
  show ?thesis
    by (simp add: list_all_iff)
qed

subsection \<open>Contextual chat completion\<close>

text \<open>
  C8. A contextual chat completion sends exactly one request. Its tool list holds exactly
  one tool: web search when the web-search toggle is on, URL context otherwise; never
  both.
\<close>

theorem generateContentWithUrlContext_tools:
  "map reqTools
     (snd (generateContentWithUrlContext remote prompt urlList fileCtx webSearch thinking custom)) =
     [Some [if webSearch then GoogleSearch else UrlContext]] \<and>
   list_all (\<lambda>request. case reqTools request of
                          None \<Rightarrow> False
                        | Some ts \<Rightarrow> length ts = 1 \<and> \<not> (GoogleSearch \<in> set ts \<and> UrlContext \<in> set ts))
     (snd (generateContentWithUrlContext remote prompt urlList fileCtx webSearch thinking custom))"
  by (simp add: generateContentWithUrlContext_def chatRequest_def Let_def)

subsection \<open>Book generation\<close>

lemma settleOrder_bound: "j \<in> set (settleOrder settled n) \<Longrightarrow> j < n"
  by (auto simp: settleOrder_def)

lemma promiseAll_Inr: "promiseAll settled (map Inr xs) = Inr xs"
proof -
  have f: "find (\<lambda>i. isl (map Inr xs ! i)) (settleOrder settled (length xs)) = None"
    by (auto simp: find_None_iff dest: settleOrder_bound)
  have m: "map projr (map Inr xs) = xs" by (simp add: comp_def)
  show ?thesis by (simp only: promiseAll_def length_map f option.simps m)
qed

text \<open>
  When a promise is rejected, \<^verbatim>\<open>Promise.all\<close> is rejected, with the reason of one of the
  rejected promises; when exactly one is, with the reason of that one, whichever promise
  settles first.
\<close>

lemma promiseAll_rejected:
  assumes "i < length ps" and "isl (ps ! i)"
  shows "\<exists>j<length ps. isl (ps ! j) \<and> promiseAll settled ps = Inl (projl (ps ! j))"
proof -
  from assms have "i \<in> set (settleOrder settled (length ps))"
    by (simp add: settleOrder_def)
  with assms(2) have "find (\<lambda>i. isl (ps ! i)) (settleOrder settled (length ps)) \<noteq> None"
    by (auto simp: find_None_iff)
  then obtain j where j: "find (\<lambda>i. isl (ps ! i)) (settleOrder settled (length ps)) = Some j"
    by auto
  then have "isl (ps ! j)" and "j \<in> set (settleOrder settled (length ps))"
    by (auto simp: find_Some_iff)
  with j show ?thesis by (auto simp: promiseAll_def dest: settleOrder_bound)
qed

lemma promiseAll_one_rejected:
  assumes "i < length ps" and "ps ! i = Inl e"
    and "\<And>j. j < length ps \<Longrightarrow> j \<noteq> i \<Longrightarrow> \<not> isl (ps ! j)"
  shows "promiseAll settled ps = Inl e"
proof -
  from assms(1,2) have "isl (ps ! i)" by simp
  with assms(1) obtain j where j: "j < length ps" "isl (ps ! j)"
      "promiseAll settled ps = Inl (projl (ps ! j))"
    using promiseAll_rejected [of i ps settled] by blast
  with assms(3) have "j = i" by blast
  with j assms(2) show ?thesis by simp
qed

lemma chapterPromises_fulfilled:
  assumes "map (\<lambda>(i, t). remote (Suc i) (chapterRequest topic t)) (zip [0..<length ts] ts) = map Inr rs"
  shows "chapterPromises remote topic ts = map Inr (map (\<lambda>(t, r). resolvedChapter t r) (zip ts rs))"
proof (rule nth_equalityI)
  from assms have "length (map (\<lambda>(i, t). remote (Suc i) (chapterRequest topic t)) (zip [0..<length ts] ts)) = length (map Inr rs :: (thrown + GenerateContentResponse) list)"
    by simp
  then have len: "length rs = length ts" by simp
  then show "length (chapterPromises remote topic ts) = length (map Inr (map (\<lambda>(t, r). resolvedChapter t r) (zip ts rs)) :: (thrown + Chapter) list)"
    by (simp add: chapterPromises_def)
  fix i assume "i < length (chapterPromises remote topic ts)"
  then have i: "i < length ts" by (simp add: chapterPromises_def)
  from assms have "map (\<lambda>(i, t). remote (Suc i) (chapterRequest topic t)) (zip [0..<length ts] ts) ! i = map Inr rs ! i"
    by simp
  with i len have "remote (Suc i) (chapterRequest topic (ts ! i)) = Inr (rs ! i)"
    by simp
  with i len show "chapterPromises remote topic ts ! i = map Inr (map (\<lambda>(t, r). resolvedChapter t r) (zip ts rs)) ! i"
    by (simp add: chapterPromises_def)
qed

lemma promiseAll_chapterPromises:
  assumes "map (\<lambda>(i, t). remote (Suc i) (chapterRequest topic t)) (zip [0..<length ts] ts) = map Inr rs"
  shows "promiseAll settled (chapterPromises remote topic ts) =
    Inr (map (\<lambda>(t, r). resolvedChapter t r) (zip ts rs))"
  by (simp only: chapterPromises_fulfilled [OF assms] promiseAll_Inr)

text \<open>
  When the outline is there and every chapter request is answered, the book has one
  chapter per outline entry, in outline order, whatever the order in which the requests
  settle.
\<close>

lemma generateBook_fulfilled:
  assumes "remote 0 (outlineRequest topic) = Inr r0"
    and "parseOutline (responseText r0) = Inr outline"
    and "destructureOutline outline = Inr (title, ts)"
    and "map (\<lambda>(i, t). remote (Suc i) (chapterRequest topic t)) (zip [0..<length ts] ts) = map Inr rs"
  shows "fst (generateBook remote settled topic) =
    Inr \<lparr>bookTitle = title, chapters = map (\<lambda>(t, r). resolvedChapter t r) (zip ts rs)\<rparr>"
  using assms(1-3) promiseAll_chapterPromises [OF assms(4)]
  by (simp add: generateBook_def)

text \<open>
  When the outline is there and the request of one chapter is rejected, the others being
  answered, the operation is rejected with the reason of that request, and no book
  results.
\<close>

lemma generateBook_rejected:
  assumes "remote 0 (outlineRequest topic) = Inr r0"
    and "parseOutline (responseText r0) = Inr outline"
    and "destructureOutline outline = Inr (title, ts)"
    and "i < length ts"
    and "remote (Suc i) (chapterRequest topic (ts ! i)) = Inl e"
    and "\<And>j. j < length ts \<Longrightarrow> j \<noteq> i \<Longrightarrow> \<not> isl (remote (Suc j) (chapterRequest topic (ts ! j)))"
  shows "fst (generateBook remote settled topic) = Inl e"
proof -
  let ?ps = "chapterPromises remote topic ts"
  have len: "length ?ps = length ts" by (simp add: chapterPromises_def)
  have nth: "?ps ! j =
      (case remote (Suc j) (chapterRequest topic (ts ! j)) of
         Inl e \<Rightarrow> Inl e
       | Inr response \<Rightarrow> Inr (resolvedChapter (ts ! j) response))" if "j < length ts" for j
    using that by (simp add: chapterPromises_def)
  from assms(4,5) have "?ps ! i = Inl e" by (simp add: nth)
  moreover have "\<not> isl (?ps ! j)" if "j < length ?ps" "j \<noteq> i" for j
    using that assms(6) [of j] by (auto simp: len nth split: sum.split)
  ultimately have "promiseAll settled ?ps = Inl e"
    using assms(4) len promiseAll_one_rejected [of i ?ps e settled] by simp
  with assms(1-3) show ?thesis by (simp add: generateBook_def)
qed

text \<open>
  C1. The outline text \<^verbatim>\<open>{"title":"T","chapters":["A","B"]}\<close>, bare or inside a
  triple-backtick fence (with or without a language tag and line breaks), parses to the
  title "T" and the chapters "A" and "B", as claimed. The second half of the claim fails
  on the code: with that outline, when the request for chapter "A" is rejected and the
  one for "B" is answered, the whole operation is rejected with the reason of the failed
  request and no book results, whichever request settles first. The placeholder
  "Content generation for this chapter failed." is the content of a chapter whose
  request is answered without text, and of no other.
\<close>

theorem generateBook_rejected_chapter:
  "parseOutline (Some outlineText) =
     Inr (JObj [(units ''title'', JStr (units ''T'')),
                (units ''chapters'', JArr [JStr (units ''A''), JStr (units ''B'')])]) \<and>
   parseOutline (Some fencedOutlineText) =
     Inr (JObj [(units ''title'', JStr (units ''T'')),
                (units ''chapters'', JArr [JStr (units ''A''), JStr (units ''B'')])]) \<and>
   parseOutline (Some (''```'' @ outlineText @ ''```'')) =
     Inr (JObj [(units ''title'', JStr (units ''T'')),
                (units ''chapters'', JArr [JStr (units ''A''), JStr (units ''B'')])]) \<and>
   destructureOutline
       (JObj [(units ''title'', JStr (units ''T'')),
              (units ''chapters'', JArr [JStr (units ''A''), JStr (units ''B'')])]) =
     Inr (Some (JStr (units ''T'')), [JStr (units ''A''), JStr (units ''B'')]) \<and>
   fst (generateBook
      (scripted [Inr (textResponse outlineText), Inl (JsError ''Service unavailable'' None),
         Inr (textResponse ''Body of B'')])
      settled ''Rust'') =
     Inl (JsError ''Service unavailable'' None) \<and>
   fst (generateBook
      (scripted [Inr (textResponse outlineText), Inr emptyResponse,
         Inr (textResponse ''Body of B'')])
      settled ''Rust'') =
     Inr \<lparr>bookTitle = Some (JStr (units ''T'')),
          chapters =
            [\<lparr>chapterTitle = JStr (units ''A''),
              chapterContent = ''Content generation for this chapter failed.''\<rparr>,
             \<lparr>chapterTitle = JStr (units ''B''), chapterContent = ''Body of B''\<rparr>]\<rparr>"
proof (intro conjI)
  let ?outline = "JObj [(units ''title'', JStr (units ''T'')),
                (units ''chapters'', JArr [JStr (units ''A''), JStr (units ''B'')])]"
  let ?failing = "scripted [Inr (textResponse outlineText),
      Inl (JsError ''Service unavailable'' None), Inr (textResponse ''Body of B'')]"
  let ?silent = "scripted [Inr (textResponse outlineText), Inr emptyResponse,
      Inr (textResponse ''Body of B'')]"
  show bare: "parseOutline (Some outlineText) = Inr ?outline"
    by code_simp
  show "parseOutline (Some fencedOutlineText) = Inr ?outline"
    by code_simp
  show "parseOutline (Some (''```'' @ outlineText @ ''```'')) = Inr ?outline"
    by code_simp
  show parts: "destructureOutline ?outline =
      Inr (Some (JStr (units ''T'')), [JStr (units ''A''), JStr (units ''B'')])"
    by code_simp
  from bare have answer: "parseOutline (responseText (textResponse outlineText)) = Inr ?outline"
    by (simp add: textResponse_def)
  have "fst (generateBook ?failing settled ''Rust'') = Inl (JsError ''Service unavailable'' None)"
  proof (rule generateBook_rejected [where i = 0, OF _ answer parts])
    show "?failing 0 (outlineRequest ''Rust'') = Inr (textResponse outlineText)"
      by (simp add: scripted_def)
    show "0 < length [JStr (units ''A''), JStr (units ''B'')]" by simp
    show "?failing (Suc 0) (chapterRequest ''Rust'' ([JStr (units ''A''), JStr (units ''B'')] ! 0)) =
        Inl (JsError ''Service unavailable'' None)"
      by (simp add: scripted_def)
    fix j :: nat
    assume "j < length [JStr (units ''A''), JStr (units ''B'')]" and "j \<noteq> 0"
    then have "j = 1" by simp
    then show "\<not> isl (?failing (Suc j)
        (chapterRequest ''Rust'' ([JStr (units ''A''), JStr (units ''B'')] ! j)))"
      by (simp add: scripted_def)
  qed
  then show "fst (generateBook ?failing settled ''Rust'') =
      Inl (JsError ''Service unavailable'' None)" .
  have "fst (generateBook ?silent settled ''Rust'') =
      Inr \<lparr>bookTitle = Some (JStr (units ''T'')),
           chapters = map (\<lambda>(t, r). resolvedChapter t r)
             (zip [JStr (units ''A''), JStr (units ''B'')]
                  [emptyResponse, textResponse ''Body of B''])\<rparr>"
  proof (rule generateBook_fulfilled [OF _ answer parts])
    show "?silent 0 (outlineRequest ''Rust'') = Inr (textResponse outlineText)"
      by (simp add: scripted_def)
    show "map (\<lambda>(i, t). ?silent (Suc i) (chapterRequest ''Rust'' t))
        (zip [0..<length [JStr (units ''A''), JStr (units ''B'')]]
             [JStr (units ''A''), JStr (units ''B'')]) =
      map Inr [emptyResponse, textResponse ''Body of B'']"
      by (simp add: scripted_def upt_rec)
  qed
  then show "fst (generateBook ?silent settled ''Rust'') =
     Inr \<lparr>bookTitle = Some (JStr (units ''T'')),
          chapters =
            [\<lparr>chapterTitle = JStr (units ''A''),
              chapterContent = ''Content generation for this chapter failed.''\<rparr>,
             \<lparr>chapterTitle = JStr (units ''B''), chapterContent = ''Body of B''\<rparr>]\<rparr>"
    by (simp add: resolvedChapter_def emptyResponse_def textResponse_def chapterPlaceholder_def
        truthy_def)
qed

subsection \<open>Sending while a request is outstanding\<close>

lemma isLoading_form:
  "isLoading (snd (KnowledgeBaseManager_handleAddUrl v ks)) = isLoading (snd ks)"
  by (simp add: KnowledgeBaseManager_handleAddUrl_def Let_def handleAddUrl_def)

lemma isLoading_handlers:
  "isLoading (handleRemoveUrl u s) = isLoading s"
  "isLoading (handleAddGroup now name s) = isLoading s"
  "isLoading (handleRemoveGroup confirmed gid s) = isLoading s"
  "isLoading (handleRenameGroup gid newName s) = isLoading s"
  "isLoading (setActiveUrlGroupId gid s) = isLoading s"
  "isLoading (setMode m s) = isLoading s"
  "isLoading (handleSetTextContext t s) = isLoading s"
  "isLoading (handleRemoveFile s) = isLoading s"
  "isLoading (handleAddFile fileType name fileText s) = isLoading s"
  "isLoading (checkLoginStatus s) = isLoading s"
  "isLoading (loadEffect parsed savedActiveId now s) = isLoading s"
  "isLoading (groupsEffect now s) = isLoading s"
  "isLoading (welcomeEffect now s) = isLoading s"
  "isLoading (fst (suggestionsEffect s)) = isLoading s"
  "isLoading (suggestionsSettled now outcome s) = isLoading s"
  by (simp_all add: handleRemoveUrl_def handleAddGroup_def handleRemoveGroup_def
      handleRenameGroup_def setActiveUrlGroupId_def setMode_def handleSetTextContext_def
      handleRemoveFile_def handleAddFile_def checkLoginStatus_def loadEffect_def
      groupsEffect_def welcomeEffect_def suggestionsEffect_def
      fetchAndSetInitialSuggestions_def suggestionsSettled_def Let_def
      split: list.split sum.split)

lemma send_cases:
  "handleSendMessage now query s = (s, None) \<or>
   (\<not> isLoading s \<and> isLoading (fst (handleSendMessage now query s)) \<and>
    snd (handleSendMessage now query s) \<noteq> None)"
  by (simp add: handleSendMessage_def Let_def)

lemma step_invariant: "chatInvariant \<sigma> \<Longrightarrow> chatInvariant (step v \<sigma> e)"
proof (cases e)
  case (SendMessage now query)
  assume i: "chatInvariant \<sigma>"
  from send_cases [of now query "app \<sigma>"] show ?thesis
  proof
    assume "handleSendMessage now query (app \<sigma>) = (app \<sigma>, None)"
    with i SendMessage show ?thesis by (simp add: chatInvariant_def startChat_def)
  next
    assume a: "\<not> isLoading (app \<sigma>) \<and> isLoading (fst (handleSendMessage now query (app \<sigma>))) \<and>
      snd (handleSendMessage now query (app \<sigma>)) \<noteq> None"
    with i have "chatCalls \<sigma> = []" by (simp add: chatInvariant_def)
    with a SendMessage show ?thesis by (auto simp: chatInvariant_def startChat_def)
  qed
next
  case (ChatSettle i remote)
  assume inv: "chatInvariant \<sigma>"
  show ?thesis
  proof (cases "i < length (chatCalls \<sigma>)")
    case True
    with inv have "i = 0" "length (chatCalls \<sigma>) = 1" by (simp_all add: chatInvariant_def)
    with ChatSettle True show ?thesis
      by (simp add: chatInvariant_def removeAt_def chatSettled_def Let_def)
  next
    case False
    with ChatSettle inv show ?thesis by simp
  qed
next
  case SubmitUrl
  assume "chatInvariant \<sigma>"
  with SubmitUrl isLoading_form [of v "(form \<sigma>, app \<sigma>)"] show ?thesis
    by (cases "KnowledgeBaseManager_handleAddUrl v (form \<sigma>, app \<sigma>)")
      (simp add: chatInvariant_def)
qed (simp_all add: chatInvariant_def isLoading_handlers startSuggestions_def)

lemma run_invariant: "chatInvariant \<sigma> \<Longrightarrow> chatInvariant (run v events \<sigma>)"
  unfolding run_def by (induction events arbitrary: \<sigma>) (simp_all add: step_invariant)

lemma initial_invariant: "chatInvariant initialSession"
  by (simp add: chatInvariant_def initialSession_def initialApp_def)

text \<open>The suggestion-fetch flag is written by the start and by the end of a fetch only.\<close>

lemma isFetchingSuggestions_form:
  "isFetchingSuggestions (snd (KnowledgeBaseManager_handleAddUrl v ks)) =
   isFetchingSuggestions (snd ks)"
  by (simp add: KnowledgeBaseManager_handleAddUrl_def Let_def handleAddUrl_def)

lemma isFetchingSuggestions_handlers:
  "isFetchingSuggestions (handleRemoveUrl u s) = isFetchingSuggestions s"
  "isFetchingSuggestions (handleAddGroup now name s) = isFetchingSuggestions s"
  "isFetchingSuggestions (handleRemoveGroup confirmed gid s) = isFetchingSuggestions s"
  "isFetchingSuggestions (handleRenameGroup gid newName s) = isFetchingSuggestions s"
  "isFetchingSuggestions (setActiveUrlGroupId gid s) = isFetchingSuggestions s"
  "isFetchingSuggestions (setMode m s) = isFetchingSuggestions s"
  "isFetchingSuggestions (handleSetTextContext t s) = isFetchingSuggestions s"
  "isFetchingSuggestions (handleRemoveFile s) = isFetchingSuggestions s"
  "isFetchingSuggestions (handleAddFile fileType name fileText s) = isFetchingSuggestions s"
  "isFetchingSuggestions (checkLoginStatus s) = isFetchingSuggestions s"
  "isFetchingSuggestions (loadEffect parsed savedActiveId now s) = isFetchingSuggestions s"
  "isFetchingSuggestions (groupsEffect now s) = isFetchingSuggestions s"
  "isFetchingSuggestions (welcomeEffect now s) = isFetchingSuggestions s"
  "isFetchingSuggestions (fst (handleSendMessage now query s)) = isFetchingSuggestions s"
  "isFetchingSuggestions (chatSettled call result s) = isFetchingSuggestions s"
  by (simp_all add: handleRemoveUrl_def handleAddGroup_def handleRemoveGroup_def
      handleRenameGroup_def setActiveUrlGroupId_def setMode_def handleSetTextContext_def
      handleRemoveFile_def handleAddFile_def checkLoginStatus_def loadEffect_def
      groupsEffect_def welcomeEffect_def handleSendMessage_def chatSettled_def Let_def
      split: list.split sum.split)

lemma step_fetchInvariant: "fetchInvariant \<sigma> \<Longrightarrow> fetchInvariant (step v \<sigma> e)"
proof (cases e)
  case SuggestionsEffect
  assume "fetchInvariant \<sigma>"
  with SuggestionsEffect show ?thesis
    by (simp add: fetchInvariant_def startSuggestions_def suggestionsEffect_def
        fetchAndSetInitialSuggestions_def)
next
  case (SuggestionsSettle i remote now)
  assume "fetchInvariant \<sigma>"
  with SuggestionsSettle show ?thesis
    by (simp add: fetchInvariant_def suggestionsSettled_def split: sum.split)
next
  case SubmitUrl
  assume "fetchInvariant \<sigma>"
  with SubmitUrl isFetchingSuggestions_form [of v "(form \<sigma>, app \<sigma>)"] show ?thesis
    by (cases "KnowledgeBaseManager_handleAddUrl v (form \<sigma>, app \<sigma>)")
      (simp add: fetchInvariant_def)
qed (simp_all add: fetchInvariant_def isFetchingSuggestions_handlers startChat_def)

lemma run_fetchInvariant: "fetchInvariant \<sigma> \<Longrightarrow> fetchInvariant (run v events \<sigma>)"
  unfolding run_def by (induction events arbitrary: \<sigma>) (simp_all add: step_fetchInvariant)

lemma initial_fetchInvariant: "fetchInvariant initialSession"
  by (simp add: fetchInvariant_def initialSession_def initialApp_def)

text \<open>
  C9, as stated, fails: a suggestions fetch can be outstanding while the suggestion-fetch
  flag is clear, and then a message is sent. Every fetch clears the flag when it
  settles, also when a later fetch is still pending. In the session
  \<open>overlappingFetches\<close> the second fetch is outstanding, both flags are clear, and
  sending "hello" appends two messages to the transcript and starts a chat call.
\<close>

theorem handleSendMessage_guard_counterexample:
  "suggestionsCalls (run sampleIsValidUrl overlappingFetches initialSession) =
     [\<lparr>callCurrentUrls = [''https://a.io/1'', ''https://a.io/2''], callFileCtx = None\<rparr>] \<and>
   \<not> isFetchingSuggestions (app (run sampleIsValidUrl overlappingFetches initialSession)) \<and>
   \<not> isLoading (app (run sampleIsValidUrl overlappingFetches initialSession)) \<and>
   chatCalls (run sampleIsValidUrl overlappingFetches initialSession) = [] \<and>
   length (chatCalls (step sampleIsValidUrl
       (run sampleIsValidUrl overlappingFetches initialSession) (SendMessage 6 ''hello''))) = 1 \<and>
   length (chatMessages (app (step sampleIsValidUrl
       (run sampleIsValidUrl overlappingFetches initialSession) (SendMessage 6 ''hello'')))) =
     length (chatMessages (app (run sampleIsValidUrl overlappingFetches initialSession))) + 2 \<and>
   step sampleIsValidUrl (run sampleIsValidUrl overlappingFetches initialSession)
       (SendMessage 6 ''hello'') \<noteq>
     run sampleIsValidUrl overlappingFetches initialSession"
  by (intro conjI) code_simp+

text \<open>
  C9, amended. While the loading flag or the suggestion-fetch flag is set, sending a
  message changes nothing: the state stays as it is (so no message is appended) and no
  call is started. Hence, in every session that starts from the initial state, at most
  one chat call is pending at any time, and the loading flag is set while one is. The
  suggestion-fetch flag is set only while a suggestions fetch is pending (it need not be
  set while one is).
\<close>

theorem handleSendMessage_guard:
  "(isLoading (app \<sigma>) \<or> isFetchingSuggestions (app \<sigma>) \<longrightarrow>
      handleSendMessage now query (app \<sigma>) = (app \<sigma>, None) \<and>
      step isValidUrl \<sigma> (SendMessage now query) = \<sigma>) \<and>
   length (chatCalls (run isValidUrl events initialSession)) \<le> 1 \<and>
   (chatCalls (run isValidUrl events initialSession) \<noteq> [] \<longrightarrow>
      isLoading (app (run isValidUrl events initialSession))) \<and>
   (isFetchingSuggestions (app (run isValidUrl events initialSession)) \<longrightarrow>
      suggestionsCalls (run isValidUrl events initialSession) \<noteq> [])"
proof (intro conjI impI)
  assume "isLoading (app \<sigma>) \<or> isFetchingSuggestions (app \<sigma>)"
  then show noop: "handleSendMessage now query (app \<sigma>) = (app \<sigma>, None)"
    by (auto simp: handleSendMessage_def)
  then show "step isValidUrl \<sigma> (SendMessage now query) = \<sigma>"
    by (simp add: startChat_def)
next
  have inv: "chatInvariant (run isValidUrl events initialSession)"
    using initial_invariant by (rule run_invariant)
  then show "length (chatCalls (run isValidUrl events initialSession)) \<le> 1"
    by (simp add: chatInvariant_def)
  assume "chatCalls (run isValidUrl events initialSession) \<noteq> []"
  with inv show "isLoading (app (run isValidUrl events initialSession))"
    by (simp add: chatInvariant_def)
next
  have "fetchInvariant (run isValidUrl events initialSession)"
    using initial_fetchInvariant by (rule run_fetchInvariant)
  moreover assume "isFetchingSuggestions (app (run isValidUrl events initialSession))"
  ultimately show "suggestionsCalls (run isValidUrl events initialSession) \<noteq> []"
    by (simp add: fetchInvariant_def)
qed

theorem handleSendMessage_guard_witness:
  "isLoading (app (run sampleIsValidUrl
      [CheckLoginStatus, GroupsEffect 1, LoadEffect (Some []) None 2, SendMessage 5 ''hello'',
       TypeUrl ''https://a.io/1'', SubmitUrl, SuggestionsEffect] initialSession)) \<and>
   isFetchingSuggestions (app (run sampleIsValidUrl
      [CheckLoginStatus, GroupsEffect 1, LoadEffect (Some []) None 2, SendMessage 5 ''hello'',
       TypeUrl ''https://a.io/1'', SubmitUrl, SuggestionsEffect] initialSession)) \<and>
   chatCalls (run sampleIsValidUrl
      [CheckLoginStatus, GroupsEffect 1, LoadEffect (Some []) None 2, SendMessage 5 ''hello'',
       TypeUrl ''https://a.io/1'', SubmitUrl, SuggestionsEffect] initialSession) \<noteq> [] \<and>
   step sampleIsValidUrl (run sampleIsValidUrl
      [CheckLoginStatus, GroupsEffect 1, LoadEffect (Some []) None 2, SendMessage 5 ''hello'',
       TypeUrl ''https://a.io/1'', SubmitUrl, SuggestionsEffect] initialSession)
       (SendMessage 6 ''again'') =
     run sampleIsValidUrl
      [CheckLoginStatus, GroupsEffect 1, LoadEffect (Some []) None 2, SendMessage 5 ''hello'',
       TypeUrl ''https://a.io/1'', SubmitUrl, SuggestionsEffect] initialSession \<and>
   length (chatCalls (run sampleIsValidUrl
      [CheckLoginStatus, GroupsEffect 1, LoadEffect (Some []) None 2, SendMessage 5 ''hello'',
       TypeUrl ''https://a.io/1'', SubmitUrl, SuggestionsEffect] initialSession)) \<le> 1 \<and>
   suggestionsCalls (run sampleIsValidUrl
      [CheckLoginStatus, GroupsEffect 1, LoadEffect (Some []) None 2, SendMessage 5 ''hello'',
       TypeUrl ''https://a.io/1'', SubmitUrl, SuggestionsEffect] initialSession) \<noteq> []"
proof -
  let ?events = "[CheckLoginStatus, GroupsEffect 1, LoadEffect (Some []) None 2,
      SendMessage 5 ''hello'', TypeUrl ''https://a.io/1'', SubmitUrl, SuggestionsEffect]"
  let ?busy = "run sampleIsValidUrl ?events initialSession"
  have l: "isLoading (app ?busy)" by code_simp
  have f: "isFetchingSuggestions (app ?busy)" by code_simp
  have c: "chatCalls ?busy \<noteq> []" by code_simp
  from handleSendMessage_guard [of ?busy 6 "''again''" sampleIsValidUrl ?events] l f c
  show ?thesis by blast
qed

end
